theory Spec2Isabelle
  imports Main
begin

section \<open>Data model (models.py)\<close>

text \<open>
  The clinic queue keeps its state in five tables. Each table is a list of rows in
  insertion order; a query's \<^verbatim>\<open>.first()\<close> is the first row of the list that
  satisfies the filter. A \<^verbatim>\<open>Date\<close> is a day number and a \<^verbatim>\<open>DateTime\<close> a
  number of seconds; every operation receives the reading of the clock as an argument
  (one instant \<open>now\<close> and one calendar day \<open>today\<close> per call). Nullable columns that
  some code path leaves unset are options. The audit columns \<^verbatim>\<open>created_at\<close>,
  \<^verbatim>\<open>updated_at\<close>, \<^verbatim>\<open>deleted_at\<close> and \<^verbatim>\<open>updated_by_user_id\<close> are read by
  none of the operations below and are left out, as are the descriptive columns of
  patients, departments and doctors. Integrity constraints are enforced by the
  database, not by the Python code, and are not part of the model.
\<close>

type_synonym date = int
type_synonym datetime = int

record QueueTicket =
  ticket_id :: int
  ticket_visit_id :: int
  queue_date :: date
  queue_status :: string
  queue_position :: int
  estimated_wait_time :: "int option"
  called_at :: "datetime option"
  started_at :: "datetime option"
  completed_at :: "datetime option"

record Visit =
  visit_id :: int
  visit_patient_id :: int
  visit_department_id :: "int option"
  visit_doctor_id :: "int option"
  visit_date :: date
  check_in_datetime :: "datetime option"
  check_in_method :: string
  visit_status :: string
  completed_datetime :: "datetime option"

record OTPVerification =
  otp_id :: int
  otp_phone_number :: string
  otp_code :: string
  is_verified :: bool
  is_expired :: bool
  retry_count :: int
  max_attempts :: int
  otp_patient_id :: "int option"
  verified_at :: "datetime option"
  expires_at :: datetime

record Patient =
  patient_id :: int
  first_name :: string
  last_name :: string
  phone_number :: string
  date_of_birth :: "date option"
  is_active :: bool

record Department =
  department_id :: int
  average_service_time :: "int option"

record db =
  patients :: "Patient list"
  departments :: "Department list"
  visits :: "Visit list"
  queue_tickets :: "QueueTicket list"
  otp_verifications :: "OTPVerification list"

text \<open>
  A primary key generated by the database is fresh: one more than the largest key in
  the table (1 in an empty table).
\<close>

definition next_id :: "int list \<Rightarrow> int" where
  "next_id ids = fold max ids 0 + 1"

text \<open>
  Attribute assignments on a loaded row followed by \<^verbatim>\<open>db.commit()\<close> update the
  row with that primary key.
\<close>

definition update_where :: "('a \<Rightarrow> bool) \<Rightarrow> ('a \<Rightarrow> 'a) \<Rightarrow> 'a list \<Rightarrow> 'a list" where
  "update_where P f xs = map (\<lambda>x. if P x then f x else x) xs"

definition get_ticket :: "db \<Rightarrow> int \<Rightarrow> QueueTicket option" where
  "get_ticket s tid = find (\<lambda>t. ticket_id t = tid) (queue_tickets s)"

definition get_visit :: "db \<Rightarrow> int \<Rightarrow> Visit option" where
  "get_visit s vid = find (\<lambda>v. visit_id v = vid) (visits s)"

definition get_patient :: "db \<Rightarrow> int \<Rightarrow> Patient option" where
  "get_patient s pid = find (\<lambda>p. patient_id p = pid) (patients s)"

section \<open>Ticket lifecycle: start (crud.py, start_appointment)\<close>

record AppointmentStartRequest =
  start_ticket_id :: int
  start_doctor_id :: "int option"

record start_data =
  sd_ticket_id :: int
  sd_visit_id :: int
  sd_patient_name :: string
  sd_queue_status :: string
  sd_started_at :: datetime

text \<open>
  The result is the triple (success, message, data) of the source, the empty
  dictionary being \<open>None\<close>, together with the database after the call. Every failing
  branch returns before anything is written.
\<close>

definition start_appointment ::
  "db \<Rightarrow> AppointmentStartRequest \<Rightarrow> datetime \<Rightarrow> (bool \<times> string \<times> start_data option) \<times> db" where
  "start_appointment s request now =
    (case get_ticket s (start_ticket_id request) of
       None \<Rightarrow> ((False, ''Queue ticket not found'', None), s)
     | Some ticket \<Rightarrow>
         if queue_status ticket \<notin> set [''WAITING'', ''CALLED''] then
           ((False, ''Cannot start appointment. Current status: '' @ queue_status ticket, None), s)
         else
           (case get_visit s (ticket_visit_id ticket) of
              None \<Rightarrow> ((False, ''Visit not found'', None), s)
            | Some visit \<Rightarrow>
                (case get_patient s (visit_patient_id visit) of
                   None \<Rightarrow> ((False, ''Patient not found'', None), s)
                 | Some patient \<Rightarrow>
                     let patient_name = first_name patient @ '' '' @ last_name patient;
                         s' = s\<lparr>queue_tickets :=
                                  update_where (\<lambda>t. ticket_id t = ticket_id ticket)
                                    (\<lambda>t. t\<lparr>queue_status := ''IN_PROGRESS'', started_at := Some now\<rparr>)
                                    (queue_tickets s),
                                visits :=
                                  update_where (\<lambda>v. visit_id v = visit_id visit)
                                    (\<lambda>v. v\<lparr>visit_status := ''IN_PROGRESS''\<rparr>)
                                    (visits s)\<rparr>
                     in ((True, ''Appointment started successfully'',
                          Some \<lparr>sd_ticket_id = ticket_id ticket,
                                sd_visit_id = visit_id visit,
                                sd_patient_name = patient_name,
                                sd_queue_status = ''IN_PROGRESS'',
                                sd_started_at = now\<rparr>), s'))))"

section \<open>Ticket lifecycle: status update and completion (routers/apiRouter.py)\<close>

text \<open>
  A router endpoint either raises an \<^verbatim>\<open>HTTPException\<close> (status code and detail) or
  returns its response. A request rejected by the validators of its schema never
  reaches the endpoint.
\<close>

datatype http_error = HTTPException int string | RequestValidationError

definition py_repr :: "string list \<Rightarrow> string" where
  "py_repr xs =
     ''['' @ concat (map (\<lambda>(i, x). (if i = 0 then [] else '', '') @ [CHR 0x27] @ x @ [CHR 0x27])
                      (enumerate 0 xs)) @ '']''"

definition valid_statuses :: "string list" where
  "valid_statuses = [''WAITING'', ''CALLED'', ''IN_PROGRESS'', ''COMPLETED'', ''CANCELLED'']"

record status_update_result =
  su_success :: bool
  su_message :: string
  su_ticket_id :: int
  su_old_status :: string
  su_new_status :: string

definition stamp_status :: "string \<Rightarrow> datetime \<Rightarrow> QueueTicket \<Rightarrow> QueueTicket" where
  "stamp_status status now t =
     (if status = ''CALLED'' then t\<lparr>called_at := Some now\<rparr>
      else if status = ''IN_PROGRESS'' then t\<lparr>started_at := Some now\<rparr>
      else if status \<in> set [''COMPLETED'', ''CANCELLED''] then t\<lparr>completed_at := Some now\<rparr>
      else t)"

definition update_appointment_status ::
  "db \<Rightarrow> int \<Rightarrow> string \<Rightarrow> datetime \<Rightarrow> (http_error + status_update_result) \<times> db" where
  "update_appointment_status s tid status now =
    (if status \<notin> set valid_statuses then
       (Inl (HTTPException 400 (''Invalid status. Must be one of: '' @ py_repr valid_statuses)), s)
     else
       (case get_ticket s tid of
          None \<Rightarrow> (Inl (HTTPException 404 ''Ticket not found''), s)
        | Some ticket \<Rightarrow>
            let old_status = queue_status ticket;
                s' = s\<lparr>queue_tickets :=
                         update_where (\<lambda>t. ticket_id t = ticket_id ticket)
                           (\<lambda>t. stamp_status status now (t\<lparr>queue_status := status\<rparr>))
                           (queue_tickets s)\<rparr>
            in (Inr \<lparr>su_success = True,
                     su_message = ''Status updated to '' @ status,
                     su_ticket_id = tid,
                     su_old_status = old_status,
                     su_new_status = status\<rparr>, s')))"

record CompleteAppointmentResponse =
  ca_success :: bool
  ca_message :: string
  ca_ticket_id :: int
  ca_visit_id :: int
  ca_completed_at :: datetime

text \<open>
  When the visit is missing the exception leaves the endpoint before the commit, and
  the pending change of the ticket is dropped with the session.
\<close>

definition complete_appointment ::
  "db \<Rightarrow> int \<Rightarrow> datetime \<Rightarrow> (http_error + CompleteAppointmentResponse) \<times> db" where
  "complete_appointment s tid now =
    (case get_ticket s tid of
       None \<Rightarrow> (Inl (HTTPException 404 ''Ticket not found''), s)
     | Some queue_ticket \<Rightarrow>
         (case get_visit s (ticket_visit_id queue_ticket) of
            None \<Rightarrow> (Inl (HTTPException 404 ''Visit not found''), s)
          | Some visit \<Rightarrow>
              let s' = s\<lparr>queue_tickets :=
                           update_where (\<lambda>t. ticket_id t = ticket_id queue_ticket)
                             (\<lambda>t. t\<lparr>queue_status := ''COMPLETED'', completed_at := Some now\<rparr>)
                             (queue_tickets s),
                         visits :=
                           update_where (\<lambda>v. visit_id v = visit_id visit)
                             (\<lambda>v. v\<lparr>visit_status := ''COMPLETED'', completed_datetime := Some now\<rparr>)
                             (visits s)\<rparr>
              in (Inr \<lparr>ca_success = True,
                       ca_message = ''Appointment completed successfully'',
                       ca_ticket_id = ticket_id queue_ticket,
                       ca_visit_id = visit_id visit,
                       ca_completed_at = now\<rparr>, s')))"

section \<open>Code verifier and admission by OTP (crud.py, verify_otp_and_checkin)\<close>

record OTPVerifyRequest =
  vr_phone_number :: string
  vr_otp_code :: string
  vr_department_id :: "int option"
  vr_doctor_id :: "int option"
  vr_check_in_method :: string

record checkin_data =
  cd_patient_id :: int
  cd_visit_id :: int
  cd_ticket_id :: "int option"
  cd_queue_position :: "int option"
  cd_estimated_wait_time :: "int option"

text \<open>The validators of the request schema (schemas.py), on ASCII strings.\<close>

definition validate_otp_code :: "string \<Rightarrow> bool" where
  "validate_otp_code v \<longleftrightarrow> \<not> (\<not> (v \<noteq> [] \<and> list_all (\<lambda>c. c \<in> set ''0123456789'') v) \<or> length v \<noteq> 6)"

definition validate_phone_number :: "string \<Rightarrow> bool" where
  "validate_phone_number v \<longleftrightarrow> \<not> (v = [] \<or> length v < 10)"

text \<open>Step 1: the first unverified, unexpired record with this phone number and code.\<close>

definition find_valid_otp :: "db \<Rightarrow> string \<Rightarrow> string \<Rightarrow> datetime \<Rightarrow> OTPVerification option" where
  "find_valid_otp s phone code now =
     find (\<lambda>r. otp_phone_number r = phone \<and> otp_code r = code \<and>
                is_verified r = False \<and> is_expired r = False \<and> expires_at r > now)
          (otp_verifications s)"

text \<open>Step 5: an open visit of the patient on this day.\<close>

definition find_open_visit :: "db \<Rightarrow> int \<Rightarrow> date \<Rightarrow> Visit option" where
  "find_open_visit s pid today =
     find (\<lambda>v. visit_patient_id v = pid \<and> visit_date v = today \<and>
                visit_status v \<in> set [''ACTIVE'', ''WAITING'', ''IN_PROGRESS''])
          (visits s)"

definition ticket_of_visit :: "db \<Rightarrow> int \<Rightarrow> QueueTicket option" where
  "ticket_of_visit s vid = find (\<lambda>t. ticket_visit_id t = vid) (queue_tickets s)"

text \<open>
  Step 7: \<^verbatim>\<open>func.max\<close> over the active tickets of the day; the aggregate of no rows
  is NULL, which \<^verbatim>\<open>or 0\<close> turns into 0.
\<close>

definition sql_max :: "int list \<Rightarrow> int option" where
  "sql_max xs = (case xs of [] \<Rightarrow> None | x # ys \<Rightarrow> Some (fold max ys x))"

definition active_tickets :: "db \<Rightarrow> date \<Rightarrow> QueueTicket list" where
  "active_tickets s today =
     filter (\<lambda>t. queue_date t = today \<and>
                  queue_status t \<in> set [''WAITING'', ''CALLED'', ''IN_PROGRESS''])
            (queue_tickets s)"

definition max_position :: "db \<Rightarrow> date \<Rightarrow> int" where
  "max_position s today =
     (case sql_max (map queue_position (active_tickets s today)) of
        None \<Rightarrow> 0
      | Some m \<Rightarrow> if m = 0 then 0 else m)"

text \<open>Step 8: the department row, if the request names one that exists.\<close>

definition get_department :: "db \<Rightarrow> int option \<Rightarrow> Department option" where
  "get_department s did =
     (case did of None \<Rightarrow> None
      | Some d \<Rightarrow> find (\<lambda>x. department_id x = d) (departments s))"

definition estimated_wait :: "int \<Rightarrow> int \<Rightarrow> int" where
  "estimated_wait new_position service_time = (new_position - 1) * service_time"

definition type_error_message :: string where
  "type_error_message =
     ''unsupported operand type(s) for *: '' @ [CHR 0x27] @ ''int'' @ [CHR 0x27] @
     '' and '' @ [CHR 0x27] @ ''NoneType'' @ [CHR 0x27]"

text \<open>
  Steps 5 to 9 of \<^verbatim>\<open>verify_otp_and_checkin\<close>, entered with the record already marked
  verified in the session (\<open>s1\<close>); \<open>s0\<close> is the database as the call found it, which a
  rollback restores. The multiplication of step 8 raises a \<^verbatim>\<open>TypeError\<close> when the
  department's \<^verbatim>\<open>average_service_time\<close> is NULL; the handler rolls back.
\<close>

definition checkin ::
  "db \<Rightarrow> db \<Rightarrow> Patient \<Rightarrow> OTPVerifyRequest \<Rightarrow> datetime \<Rightarrow> date \<Rightarrow>
     (bool \<times> string \<times> checkin_data option) \<times> db" where
  "checkin s0 s1 patient request now today =
    (case find_open_visit s1 (patient_id patient) today of
       Some existing_visit \<Rightarrow>
         let queue_ticket = ticket_of_visit s1 (visit_id existing_visit)
         in ((True, ''Already checked in for today'',
              Some \<lparr>cd_patient_id = patient_id patient,
                    cd_visit_id = visit_id existing_visit,
                    cd_ticket_id = map_option ticket_id queue_ticket,
                    cd_queue_position = map_option queue_position queue_ticket,
                    cd_estimated_wait_time = Option.bind queue_ticket estimated_wait_time\<rparr>), s1)
     | None \<Rightarrow>
         let new_visit = \<lparr>visit_id = next_id (map visit_id (visits s1)),
                          visit_patient_id = patient_id patient,
                          visit_department_id = vr_department_id request,
                          visit_doctor_id = vr_doctor_id request,
                          visit_date = today,
                          check_in_datetime = Some now,
                          check_in_method = vr_check_in_method request,
                          visit_status = ''ACTIVE'',
                          completed_datetime = None\<rparr>;
             s2 = s1\<lparr>visits := visits s1 @ [new_visit]\<rparr>;
             new_position = max_position s2 today + 1;
             department = get_department s2 (vr_department_id request)
         in (case (case department of None \<Rightarrow> Some 30 | Some d \<Rightarrow> average_service_time d) of
               None \<Rightarrow> ((False, ''Error during check-in: '' @ type_error_message, None), s0)
             | Some service_time \<Rightarrow>
                 let wait = estimated_wait new_position service_time;
                     queue_ticket = \<lparr>ticket_id = next_id (map ticket_id (queue_tickets s2)),
                                     ticket_visit_id = visit_id new_visit,
                                     queue_date = today,
                                     queue_status = ''WAITING'',
                                     queue_position = new_position,
                                     estimated_wait_time = Some wait,
                                     called_at = None,
                                     started_at = None,
                                     completed_at = None\<rparr>;
                     s3 = s2\<lparr>queue_tickets := queue_tickets s2 @ [queue_ticket]\<rparr>
                 in ((True, ''Check-in successful'',
                      Some \<lparr>cd_patient_id = patient_id patient,
                            cd_visit_id = visit_id new_visit,
                            cd_ticket_id = Some (ticket_id queue_ticket),
                            cd_queue_position = Some new_position,
                            cd_estimated_wait_time = Some wait\<rparr>), s3)))"

text \<open>
  Steps 1 to 4. A record without a patient never finds one: the comparison of the
  primary key with NULL selects no row.
\<close>

definition verify_otp_and_checkin ::
  "db \<Rightarrow> OTPVerifyRequest \<Rightarrow> datetime \<Rightarrow> date \<Rightarrow>
     (bool \<times> string \<times> checkin_data option) \<times> db" where
  "verify_otp_and_checkin s request now today =
    (case find_valid_otp s (vr_phone_number request) (vr_otp_code request) now of
       None \<Rightarrow> ((False, ''Invalid or expired OTP'', None), s)
     | Some otp_record \<Rightarrow>
         if retry_count otp_record \<ge> max_attempts otp_record then
           ((False, ''Maximum OTP verification attempts exceeded'', None),
            s\<lparr>otp_verifications :=
                 update_where (\<lambda>r. otp_id r = otp_id otp_record)
                   (\<lambda>r. r\<lparr>is_expired := True\<rparr>) (otp_verifications s)\<rparr>)
         else
           (case Option.bind (otp_patient_id otp_record) (get_patient s) of
              None \<Rightarrow> ((False, ''Patient not found'', None), s)
            | Some patient \<Rightarrow>
                let s1 = s\<lparr>otp_verifications :=
                             update_where (\<lambda>r. otp_id r = otp_id otp_record)
                               (\<lambda>r. r\<lparr>is_verified := True, verified_at := Some now\<rparr>)
                               (otp_verifications s)\<rparr>
                in checkin s s1 patient request now today))"

text \<open>The endpoint \<^verbatim>\<open>POST /otp/verify\<close>: schema validation, then the function above.\<close>

definition verify_otp ::
  "db \<Rightarrow> OTPVerifyRequest \<Rightarrow> datetime \<Rightarrow> date \<Rightarrow>
     (http_error + string \<times> checkin_data option) \<times> db" where
  "verify_otp s request now today =
    (if \<not> (validate_otp_code (vr_otp_code request) \<and>
            validate_phone_number (vr_phone_number request)) then
       (Inl RequestValidationError, s)
     else
       (case verify_otp_and_checkin s request now today of
          ((success, message, data), s') \<Rightarrow>
            if \<not> success then (Inl (HTTPException 400 message), s')
            else (Inr (message, data), s')))"

section \<open>Admission by QR code (routers/apiRouter.py, qr_checkin)\<close>

record QRCheckInRequest =
  qr_phone_number :: string
  qr_code_value :: string
  qr_first_name :: "string option"
  qr_last_name :: "string option"
  qr_date_of_birth :: "date option"

record QRCheckInResponse =
  qr_success :: bool
  qr_message :: string
  qr_patient_id :: int
  qr_visit_id :: int
  qr_ticket_id :: int
  qr_queue_position :: int

definition find_active_patient :: "db \<Rightarrow> string \<Rightarrow> Patient option" where
  "find_active_patient s phone =
     find (\<lambda>p. phone_number p = phone \<and> is_active p = True) (patients s)"

text \<open>
  The patient of the request: the active patient with this phone number, or a new
  one, for which the three personal fields must be present and non-empty.
\<close>

definition qr_patient :: "db \<Rightarrow> QRCheckInRequest \<Rightarrow> http_error + Patient \<times> db" where
  "qr_patient s request =
    (case find_active_patient s (qr_phone_number request) of
       Some patient \<Rightarrow> Inr (patient, s)
     | None \<Rightarrow>
         (case (qr_first_name request, qr_last_name request, qr_date_of_birth request) of
            (Some fn, Some ln, Some dob) \<Rightarrow>
              if fn = [] \<or> ln = [] then
                Inl (HTTPException 400
                  ''For new patients: first_name, last_name, and date_of_birth are required'')
              else
                let patient = \<lparr>patient_id = next_id (map patient_id (patients s)),
                                first_name = fn,
                                last_name = ln,
                                phone_number = qr_phone_number request,
                                date_of_birth = Some dob,
                                is_active = True\<rparr>
                in Inr (patient, s\<lparr>patients := patients s @ [patient]\<rparr>)
          | _ \<Rightarrow>
              Inl (HTTPException 400
                ''For new patients: first_name, last_name, and date_of_birth are required'')))"

definition qr_checkin ::
  "db \<Rightarrow> QRCheckInRequest \<Rightarrow> datetime \<Rightarrow> date \<Rightarrow> (http_error + QRCheckInResponse) \<times> db" where
  "qr_checkin s request now today =
    (case qr_patient s request of
       Inl e \<Rightarrow> (Inl e, s)
     | Inr (patient, s1) \<Rightarrow>
         let visit = \<lparr>visit_id = next_id (map visit_id (visits s1)),
                      visit_patient_id = patient_id patient,
                      visit_department_id = None,
                      visit_doctor_id = None,
                      visit_date = today,
                      check_in_datetime = Some now,
                      check_in_method = ''QR_CODE'',
                      visit_status = ''ACTIVE'',
                      completed_datetime = None\<rparr>;
             s2 = s1\<lparr>visits := visits s1 @ [visit]\<rparr>;
             max_pos = int (length (filter (\<lambda>t. queue_date t = today) (queue_tickets s2)));
             position = max_pos + 1;
             queue_ticket = \<lparr>ticket_id = next_id (map ticket_id (queue_tickets s2)),
                             ticket_visit_id = visit_id visit,
                             queue_date = today,
                             queue_status = ''WAITING'',
                             queue_position = position,
                             estimated_wait_time = None,
                             called_at = None,
                             started_at = None,
                             completed_at = None\<rparr>;
             s3 = s2\<lparr>queue_tickets := queue_tickets s2 @ [queue_ticket]\<rparr>
         in (Inr \<lparr>qr_success = True,
                  qr_message = ''Check-in successful'',
                  qr_patient_id = patient_id patient,
                  qr_visit_id = visit_id visit,
                  qr_ticket_id = ticket_id queue_ticket,
                  qr_queue_position = position\<rparr>, s3))"

section \<open>Issuing codes (routers/apiRouter.py, send_otp)\<close>

record OTPSendResponse =
  os_message :: string
  os_otp_id :: int
  os_otp_code :: string
  os_expires_at :: datetime

definition minutes :: "int \<Rightarrow> int" where
  "minutes n = 60 * n"

definition find_existing_otp :: "db \<Rightarrow> string \<Rightarrow> OTPVerification option" where
  "find_existing_otp s phone =
     find (\<lambda>r. otp_phone_number r = phone \<and> is_expired r = False \<and> is_verified r = False)
          (otp_verifications s)"

text \<open>
  The argument \<open>code\<close> is the decimal rendering of the random draw
  \<^verbatim>\<open>random.randint(1000, 9999)\<close>.
\<close>

definition send_otp ::
  "db \<Rightarrow> string \<Rightarrow> datetime \<Rightarrow> string \<Rightarrow> (http_error + OTPSendResponse) \<times> db" where
  "send_otp s phone now code =
    (case find_existing_otp s phone of
       Some existing_otp \<Rightarrow>
         if retry_count existing_otp \<ge> max_attempts existing_otp then
           (Inl (HTTPException 429 ''Maximum OTP request attempts reached. Please try again later.''), s)
         else
           (Inr \<lparr>os_message = ''OTP resent successfully'',
                 os_otp_id = otp_id existing_otp,
                 os_otp_code = otp_code existing_otp,
                 os_expires_at = expires_at existing_otp\<rparr>,
            s\<lparr>otp_verifications :=
                 update_where (\<lambda>r. otp_id r = otp_id existing_otp)
                   (\<lambda>r. r\<lparr>retry_count := retry_count r + 1\<rparr>) (otp_verifications s)\<rparr>)
     | None \<Rightarrow>
         let expiry = now + minutes 5;
             new_otp = \<lparr>otp_id = next_id (map otp_id (otp_verifications s)),
                        otp_phone_number = phone,
                        otp_code = code,
                        is_verified = False,
                        is_expired = False,
                        retry_count = 0,
                        max_attempts = 3,
                        otp_patient_id = None,
                        verified_at = None,
                        expires_at = expiry\<rparr>
         in (Inr \<lparr>os_message = ''OTP sent successfully'',
                  os_otp_id = otp_id new_otp,
                  os_otp_code = otp_code new_otp,
                  os_expires_at = expiry\<rparr>,
             s\<lparr>otp_verifications := otp_verifications s @ [new_otp]\<rparr>))"

section \<open>Check-in by SMS (routers/apiRouter.py, sms_checkin)\<close>

record SMSCheckinRequest =
  sms_phone_number :: string
  sms_message_body :: string

record SMSCheckinResponse =
  sms_success :: bool
  sms_message :: string
  sms_otp_required :: bool
  sms_visit_id :: "int option"
  sms_queue_position :: "int option"

text \<open>
  \<^verbatim>\<open>str.strip\<close> and \<^verbatim>\<open>str.upper\<close> on ASCII text: the white space of Python is
  the characters 9 to 13, 28 to 31 and 32, and the letters a to z are raised.
\<close>

definition py_isspace :: "char \<Rightarrow> bool" where
  "py_isspace c \<longleftrightarrow> (of_char c :: nat) \<in> set [9, 10, 11, 12, 13, 28, 29, 30, 31, 32]"

definition py_strip :: "string \<Rightarrow> string" where
  "py_strip v = rev (dropWhile py_isspace (rev (dropWhile py_isspace v)))"

definition py_upper :: "string \<Rightarrow> string" where
  "py_upper v =
     map (\<lambda>c. if 97 \<le> (of_char c :: nat) \<and> (of_char c :: nat) \<le> 122
              then char_of ((of_char c :: nat) - 32) else c) v"

definition find_scheduled_visit :: "db \<Rightarrow> int \<Rightarrow> date \<Rightarrow> Visit option" where
  "find_scheduled_visit s pid today =
     find (\<lambda>v. visit_patient_id v = pid \<and> visit_date v = today \<and> visit_status v = ''scheduled'')
          (visits s)"

text \<open>
  The argument \<open>code\<close> is the draw of \<^verbatim>\<open>generate_otp()\<close>, six random digits. The
  columns that the constructor call leaves out take their defaults.
\<close>

definition sms_checkin ::
  "db \<Rightarrow> SMSCheckinRequest \<Rightarrow> datetime \<Rightarrow> date \<Rightarrow> string \<Rightarrow> SMSCheckinResponse \<times> db" where
  "sms_checkin s request now today code =
    (if py_upper (py_strip (sms_message_body request)) \<noteq> ''JOIN'' then
       (\<lparr>sms_success = False,
         sms_message = ''Invalid message. Please text '' @ [CHR 0x27] @ ''JOIN'' @ [CHR 0x27] @
                       '' to check in.'',
         sms_otp_required = False, sms_visit_id = None, sms_queue_position = None\<rparr>, s)
     else
       (case find_active_patient s (sms_phone_number request) of
          None \<Rightarrow>
            (\<lparr>sms_success = False, sms_message = ''Patient not found. Please register first.'',
              sms_otp_required = False, sms_visit_id = None, sms_queue_position = None\<rparr>, s)
        | Some patient \<Rightarrow>
            (case find_scheduled_visit s (patient_id patient) today of
               None \<Rightarrow>
                 (\<lparr>sms_success = False, sms_message = ''No appointment scheduled for today.'',
                   sms_otp_required = False, sms_visit_id = None, sms_queue_position = None\<rparr>, s)
             | Some visit \<Rightarrow>
                 if check_in_datetime visit \<noteq> None then
                   (\<lparr>sms_success = False, sms_message = ''You have already checked in.'',
                     sms_otp_required = False, sms_visit_id = None,
                     sms_queue_position = None\<rparr>, s)
                 else
                   let otp_record = \<lparr>otp_id = next_id (map otp_id (otp_verifications s)),
                                     otp_phone_number = sms_phone_number request,
                                     otp_code = code,
                                     is_verified = False,
                                     is_expired = False,
                                     retry_count = 0,
                                     max_attempts = 3,
                                     otp_patient_id = Some (patient_id patient),
                                     verified_at = None,
                                     expires_at = now + minutes 10\<rparr>
                   in (\<lparr>sms_success = True,
                        sms_message = ''OTP sent to your phone. Please reply with the code.'',
                        sms_otp_required = True, sms_visit_id = Some (visit_id visit),
                        sms_queue_position = None\<rparr>,
                       s\<lparr>otp_verifications := otp_verifications s @ [otp_record]\<rparr>))))"

section \<open>Sequences of requests\<close>

text \<open>
  The mutating requests, each with its clock reading, executed one after the other;
  a request that fails leaves whatever its endpoint committed.
\<close>

datatype operation =
    VerifyOtp OTPVerifyRequest datetime date
  | QrCheckin QRCheckInRequest datetime date
  | Start AppointmentStartRequest datetime
  | UpdateStatus int string datetime
  | Complete int datetime
  | SendOtp string datetime string
  | SmsCheckin SMSCheckinRequest datetime date string

fun exec :: "db \<Rightarrow> operation \<Rightarrow> db" where
  "exec s (VerifyOtp request now today) = snd (verify_otp_and_checkin s request now today)"
| "exec s (QrCheckin request now today) = snd (qr_checkin s request now today)"
| "exec s (Start request now) = snd (start_appointment s request now)"
| "exec s (UpdateStatus tid status now) = snd (update_appointment_status s tid status now)"
| "exec s (Complete tid now) = snd (complete_appointment s tid now)"
| "exec s (SendOtp phone now code) = snd (send_otp s phone now code)"
| "exec s (SmsCheckin request now today code) = snd (sms_checkin s request now today code)"

definition run :: "db \<Rightarrow> operation list \<Rightarrow> db" where
  "run s ops = foldl exec s ops"

section \<open>A small clinic\<close>

text \<open>
  Three registered patients, one department with an average service time of 20
  minutes, and one pending code per patient (two for the first), as the SMS check-in
  stores them. The codes have the six digits and the phone numbers the ten characters
  that the request schema demands.
\<close>

definition mk_patient :: "int \<Rightarrow> string \<Rightarrow> Patient" where
  "mk_patient i phone =
     \<lparr>patient_id = i, first_name = ''Pat'', last_name = ''Doe'', phone_number = phone,
      date_of_birth = None, is_active = True\<rparr>"

definition mk_otp :: "int \<Rightarrow> string \<Rightarrow> string \<Rightarrow> int \<Rightarrow> OTPVerification" where
  "mk_otp i phone code pid =
     \<lparr>otp_id = i, otp_phone_number = phone, otp_code = code, is_verified = False,
      is_expired = False, retry_count = 0, max_attempts = 3, otp_patient_id = Some pid,
      verified_at = None, expires_at = 1000\<rparr>"

definition clinic0 :: db where
  "clinic0 =
     \<lparr>patients = [mk_patient 1 ''+1-555-1011'', mk_patient 2 ''+1-555-1012'',
                  mk_patient 3 ''+1-555-1013''],
      departments = [\<lparr>department_id = 5, average_service_time = Some 20\<rparr>],
      visits = [],
      queue_tickets = [],
      otp_verifications = [mk_otp 1 ''+1-555-1011'' ''123456'' 1,
                           mk_otp 2 ''+1-555-1012'' ''654321'' 2,
                           mk_otp 3 ''+1-555-1013'' ''111111'' 3,
                           mk_otp 4 ''+1-555-1011'' ''222222'' 1]\<rparr>"

definition mk_req :: "string \<Rightarrow> string \<Rightarrow> OTPVerifyRequest" where
  "mk_req phone code =
     \<lparr>vr_phone_number = phone, vr_otp_code = code, vr_department_id = Some 5,
      vr_doctor_id = None, vr_check_in_method = ''OTP''\<rparr>"

definition start_ticket :: "int \<Rightarrow> AppointmentStartRequest" where
  "start_ticket tid = \<lparr>start_ticket_id = tid, start_doctor_id = None\<rparr>"

text \<open>The first patient has checked in on day 7 and waits with ticket 1.\<close>

definition clinic_waiting :: db where
  "clinic_waiting = run clinic0 [VerifyOtp (mk_req ''+1-555-1011'' ''123456'') 10 7]"

text \<open>The same, with the appointment completed.\<close>

definition clinic_completed :: db where
  "clinic_completed =
     run clinic0 [VerifyOtp (mk_req ''+1-555-1011'' ''123456'') 10 7, Complete 1 11]"

text \<open>The requests that issue or resend a code.\<close>

fun is_send_otp :: "operation \<Rightarrow> bool" where
  "is_send_otp (SendOtp phone now code) = True"
| "is_send_otp _ = False"

text \<open>
  The second patient has asked three times for the code to be sent again; the counter
  of the pending record stands at the ceiling of 3.
\<close>

definition clinic_resent :: db where
  "clinic_resent =
     run clinic0 [SendOtp ''+1-555-1012'' 10 ''4711'', SendOtp ''+1-555-1012'' 11 ''4712'',
                  SendOtp ''+1-555-1012'' 12 ''4713'']"

text \<open>
  The first two patients have checked in on day 7, with tickets 1 and 2 at the
  positions 1 and 2.
\<close>

definition clinic_two_waiting :: db where
  "clinic_two_waiting =
     run clinic0 [VerifyOtp (mk_req ''+1-555-1011'' ''123456'') 10 7,
                  VerifyOtp (mk_req ''+1-555-1012'' ''654321'') 11 7]"

text \<open>The same, after the first appointment has been completed.\<close>

definition clinic_first_done :: db where
  "clinic_first_done =
     run clinic0 [VerifyOtp (mk_req ''+1-555-1011'' ''123456'') 10 7,
                  VerifyOtp (mk_req ''+1-555-1012'' ''654321'') 11 7,
                  Complete 1 12]"

text \<open>A request of the second patient that names no department.\<close>

definition walk_in :: OTPVerifyRequest where
  "walk_in =
     \<lparr>vr_phone_number = ''+1-555-1012'', vr_otp_code = ''654321'', vr_department_id = None,
      vr_doctor_id = None, vr_check_in_method = ''OTP''\<rparr>"

text \<open>A QR request of a registered patient.\<close>

definition mk_qr :: "string \<Rightarrow> QRCheckInRequest" where
  "mk_qr phone =
     \<lparr>qr_phone_number = phone, qr_code_value = ''345678'', qr_first_name = None,
      qr_last_name = None, qr_date_of_birth = None\<rparr>"

text \<open>The open visits of a patient on a day.\<close>

definition open_visits :: "db \<Rightarrow> int \<Rightarrow> date \<Rightarrow> Visit list" where
  "open_visits s pid day =
     filter (\<lambda>v. visit_patient_id v = pid \<and> visit_date v = day \<and>
                  visit_status v \<in> set [''ACTIVE'', ''WAITING'', ''IN_PROGRESS''])
            (visits s)"

text \<open>
  The table of codes \<open>ys\<close> continues the table \<open>xs\<close>: every row of \<open>xs\<close> is still
  at its place with its key, phone number and code, and is verified if it was.
\<close>

definition otp_kept :: "OTPVerification list \<Rightarrow> OTPVerification list \<Rightarrow> bool" where
  "otp_kept xs ys \<longleftrightarrow>
     length xs \<le> length ys \<and>
     (\<forall>k < length xs.
        otp_id (ys ! k) = otp_id (xs ! k) \<and>
        otp_phone_number (ys ! k) = otp_phone_number (xs ! k) \<and>
        otp_code (ys ! k) = otp_code (xs ! k) \<and>
        (is_verified (xs ! k) \<longrightarrow> is_verified (ys ! k)))"

text \<open>A ticket in one of the three active statuses.\<close>

definition active_ticket :: "QueueTicket \<Rightarrow> bool" where
  "active_ticket t \<longleftrightarrow> queue_status t \<in> set [''WAITING'', ''CALLED'', ''IN_PROGRESS'']"

text \<open>
  A status update reactivates a ticket when it moves a ticket that is not active into
  an active status.
\<close>

fun reactivates :: "db \<Rightarrow> operation \<Rightarrow> bool" where
  "reactivates s (UpdateStatus tid status now) =
     (case get_ticket s tid of
        None \<Rightarrow> False
      | Some t \<Rightarrow> \<not> active_ticket t \<and> status \<in> set [''WAITING'', ''CALLED'', ''IN_PROGRESS''])"
| "reactivates s _ = False"

fun no_reactivation :: "db \<Rightarrow> operation list \<Rightarrow> bool" where
  "no_reactivation s [] = True"
| "no_reactivation s (op # ops) = (\<not> reactivates s op \<and> no_reactivation (exec s op) ops)"

text \<open>
  The invariant of the queue: keys are distinct, the active tickets of a day have
  distinct positions, and every position lies between 1 and the number of tickets of
  its day.
\<close>

definition queue_inv :: "QueueTicket list \<Rightarrow> bool" where
  "queue_inv ts \<longleftrightarrow>
     distinct (map ticket_id ts) \<and>
     (\<forall>d. distinct (map queue_position (filter (\<lambda>t. queue_date t = d \<and> active_ticket t) ts))) \<and>
     (\<forall>t \<in> set ts. 1 \<le> queue_position t \<and>
        queue_position t \<le> int (length (filter (\<lambda>u. queue_date u = queue_date t) ts)))"

text \<open>
  The first patient has an appointment scheduled for day 7 and has not checked in.
\<close>

definition clinic_scheduled :: db where
  "clinic_scheduled =
     \<lparr>patients = [mk_patient 1 ''+1-555-1011''],
      departments = [\<lparr>department_id = 5, average_service_time = Some 20\<rparr>],
      visits = [\<lparr>visit_id = 1, visit_patient_id = 1, visit_department_id = Some 5,
                 visit_doctor_id = None, visit_date = 7, check_in_datetime = None,
                 check_in_method = [], visit_status = ''scheduled'',
                 completed_datetime = None\<rparr>],
      queue_tickets = [],
      otp_verifications = []\<rparr>"

text \<open>
  The clinic with the first patient waiting and a second department, whose average
  service time is 15 minutes.
\<close>

definition clinic_two_departments :: db where
  "clinic_two_departments =
     clinic_waiting\<lparr>departments := [\<lparr>department_id = 5, average_service_time = Some 20\<rparr>,
                                    \<lparr>department_id = 6, average_service_time = Some 15\<rparr>]\<rparr>"

text \<open>The request of the second patient for a given department.\<close>

definition request_for :: "int option \<Rightarrow> OTPVerifyRequest" where
  "request_for did = walk_in\<lparr>vr_department_id := did\<rparr>"

text \<open>
  A code has been issued at time 10 to a phone number without a pending record; the
  new record, with key 5, expires at time 310.
\<close>

definition clinic_issued :: db where
  "clinic_issued = run clinic0 [SendOtp ''+1-555-1019'' 10 ''4711'']"

section \<open>Properties\<close>

lemma find_update_where_key:
  assumes "find (\<lambda>x. key x = k) xs = Some x" and "\<And>y. key (f y) = key y"
  shows "find (\<lambda>x. key x = k) (update_where (\<lambda>y. key y = key x) f xs) = Some (f x)"
  using assms by (induction xs) (auto simp: update_where_def split: if_splits)

lemma find_key_Some: "find (\<lambda>x. key x = k) xs = Some x \<Longrightarrow> key x = k"
  by (auto simp: find_Some_iff)

subsection \<open>The requests of the small clinic pass the schema\<close>

lemma clinic_requests_valid:
  "validate_phone_number ''+1-555-1011'' \<and> validate_phone_number ''+1-555-1012'' \<and>
   validate_phone_number ''+1-555-1013'' \<and> validate_otp_code ''123456'' \<and>
   validate_otp_code ''654321'' \<and> validate_otp_code ''111111'' \<and>
   validate_otp_code ''222222'' \<and> validate_otp_code ''000000''"
  by (simp add: validate_phone_number_def validate_otp_code_def)

lemma verify_otp_valid_request:
  assumes "validate_otp_code (vr_otp_code request)" "validate_phone_number (vr_phone_number request)"
  shows "snd (verify_otp s request now today) = snd (verify_otp_and_checkin s request now today)"
    and "fst (fst (verify_otp_and_checkin s request now today)) \<Longrightarrow>
      fst (verify_otp s request now today) = Inr (snd (fst (verify_otp_and_checkin s request now today)))"
  using assms by (auto simp: verify_otp_def split: prod.splits)

subsection \<open>Starting an appointment\<close>

text \<open>
  Claim C6. \<^verbatim>\<open>start_appointment\<close> succeeds only for a ticket whose status is WAITING
  or CALLED. Every failure leaves the database as it was; for a ticket in any other
  status the message is "Cannot start appointment. Current status: " followed by that
  status, so for a COMPLETED ticket it ends in COMPLETED. On success the ticket is
  IN_PROGRESS with \<^verbatim>\<open>started_at\<close> set to the time of the call, and its visit is
  IN_PROGRESS as well.
\<close>

theorem start_appointment_transition:
  "(fst (fst (start_appointment s request now)) \<longrightarrow>
      (\<exists>t. get_ticket s (start_ticket_id request) = Some t \<and>
           queue_status t \<in> {''WAITING'', ''CALLED''})) \<and>
   (\<not> fst (fst (start_appointment s request now)) \<longrightarrow>
      snd (start_appointment s request now) = s) \<and>
   (\<forall>t. get_ticket s (start_ticket_id request) = Some t \<and>
        queue_status t \<notin> {''WAITING'', ''CALLED''} \<longrightarrow>
        start_appointment s request now =
          ((False, ''Cannot start appointment. Current status: '' @ queue_status t, None), s)) \<and>
   (\<forall>t. get_ticket s (start_ticket_id request) = Some t \<and> queue_status t = ''COMPLETED'' \<longrightarrow>
        fst (snd (fst (start_appointment s request now))) =
          ''Cannot start appointment. Current status: COMPLETED'') \<and>
   (fst (fst (start_appointment s request now)) \<longrightarrow>
      (\<exists>t t' v'. get_ticket s (start_ticket_id request) = Some t \<and>
          get_ticket (snd (start_appointment s request now)) (start_ticket_id request) = Some t' \<and>
          queue_status t' = ''IN_PROGRESS'' \<and> started_at t' = Some now \<and>
          get_visit (snd (start_appointment s request now)) (ticket_visit_id t) = Some v' \<and>
          visit_status v' = ''IN_PROGRESS''))"
proof -
  let ?r = "start_appointment s request now"
  have a: "fst (fst ?r) \<longrightarrow>
      (\<exists>t. get_ticket s (start_ticket_id request) = Some t \<and>
           queue_status t \<in> {''WAITING'', ''CALLED''})"
    by (auto simp: start_appointment_def Let_def split: option.splits if_splits)
  have b: "\<not> fst (fst ?r) \<longrightarrow> snd ?r = s"
    by (auto simp: start_appointment_def Let_def split: option.splits if_splits)
  have c: "\<forall>t. get_ticket s (start_ticket_id request) = Some t \<and>
        queue_status t \<notin> {''WAITING'', ''CALLED''} \<longrightarrow>
        ?r = ((False, ''Cannot start appointment. Current status: '' @ queue_status t, None), s)"
    by (auto simp: start_appointment_def)
  have d: "\<forall>t. get_ticket s (start_ticket_id request) = Some t \<and> queue_status t = ''COMPLETED'' \<longrightarrow>
        fst (snd (fst ?r)) = ''Cannot start appointment. Current status: COMPLETED''"
    by (auto simp: start_appointment_def)
  have e: "fst (fst ?r) \<longrightarrow>
      (\<exists>t t' v'. get_ticket s (start_ticket_id request) = Some t \<and>
          get_ticket (snd ?r) (start_ticket_id request) = Some t' \<and>
          queue_status t' = ''IN_PROGRESS'' \<and> started_at t' = Some now \<and>
          get_visit (snd ?r) (ticket_visit_id t) = Some v' \<and>
          visit_status v' = ''IN_PROGRESS'')"
  proof
    assume ok: "fst (fst ?r)"
    then obtain t v p where t: "get_ticket s (start_ticket_id request) = Some t"
      and v: "get_visit s (ticket_visit_id t) = Some v"
      and p: "get_patient s (visit_patient_id v) = Some p"
      and st: "queue_status t \<in> {''WAITING'', ''CALLED''}"
      by (auto simp: start_appointment_def Let_def split: option.splits if_splits)
    have t': "get_ticket (snd ?r) (start_ticket_id request) =
        Some (t\<lparr>queue_status := ''IN_PROGRESS'', started_at := Some now\<rparr>)"
      using t v p st find_update_where_key[of ticket_id "start_ticket_id request" "queue_tickets s" t
          "\<lambda>t. t\<lparr>queue_status := ''IN_PROGRESS'', started_at := Some now\<rparr>"]
      by (simp add: start_appointment_def Let_def get_ticket_def)
    have v': "get_visit (snd ?r) (ticket_visit_id t) = Some (v\<lparr>visit_status := ''IN_PROGRESS''\<rparr>)"
      using t v p st find_update_where_key[of visit_id "ticket_visit_id t" "visits s" v
          "\<lambda>v. v\<lparr>visit_status := ''IN_PROGRESS''\<rparr>"]
      by (simp add: start_appointment_def Let_def get_visit_def)
    show "\<exists>t t' v'. get_ticket s (start_ticket_id request) = Some t \<and>
          get_ticket (snd ?r) (start_ticket_id request) = Some t' \<and>
          queue_status t' = ''IN_PROGRESS'' \<and> started_at t' = Some now \<and>
          get_visit (snd ?r) (ticket_visit_id t) = Some v' \<and>
          visit_status v' = ''IN_PROGRESS''"
      using t t' v' by simp
  qed
  from a b c d e show ?thesis by blast
qed

theorem start_appointment_transition_witness:
  "fst (fst (start_appointment clinic_waiting (start_ticket 1) 12)) \<and>
   (\<exists>t'. get_ticket (snd (start_appointment clinic_waiting (start_ticket 1) 12)) 1 = Some t' \<and>
         queue_status t' = ''IN_PROGRESS'' \<and> started_at t' = Some 12) \<and>
   map_option queue_status (get_ticket clinic_completed 1) = Some ''COMPLETED'' \<and>
   start_appointment clinic_completed (start_ticket 1) 12 =
     ((False, ''Cannot start appointment. Current status: COMPLETED'', None), clinic_completed)"
proof -
  have ok: "fst (fst (start_appointment clinic_waiting (start_ticket 1) 12))"
    by code_simp
  have k: "start_ticket_id (start_ticket 1) = 1"
    by (simp add: start_ticket_def)
  have st: "map_option queue_status (get_ticket clinic_completed 1) = Some ''COMPLETED''"
    by code_simp
  then obtain t where t: "get_ticket clinic_completed 1 = Some t" "queue_status t = ''COMPLETED''"
    by (cases "get_ticket clinic_completed 1") auto
  have a: "\<exists>t'. get_ticket (snd (start_appointment clinic_waiting (start_ticket 1) 12)) 1 = Some t' \<and>
         queue_status t' = ''IN_PROGRESS'' \<and> started_at t' = Some 12"
    using start_appointment_transition [of clinic_waiting "start_ticket 1" 12] ok k by auto
  have b: "start_appointment clinic_completed (start_ticket 1) 12 =
     ((False, ''Cannot start appointment. Current status: COMPLETED'', None), clinic_completed)"
    using start_appointment_transition [of clinic_completed "start_ticket 1" 12] t k by auto
  from ok a st b show ?thesis by blast
qed

subsection \<open>Setting a status directly\<close>

lemma filter_update_where_other:
  "filter (\<lambda>x. \<not> P x) (update_where P f xs) = filter (\<lambda>x. \<not> P x) xs"
  if "\<And>x. P (f x) = P x"
  using that by (induction xs) (auto simp: update_where_def)

lemma ticket_id_stamp_status [simp]: "ticket_id (stamp_status status now t) = ticket_id t"
  by (simp add: stamp_status_def)

lemma queue_status_stamp_status [simp]: "queue_status (stamp_status status now t) = queue_status t"
  by (simp add: stamp_status_def)

text \<open>
  Claim C9. For an existing ticket and any of the five status strings, the status
  update succeeds and stores exactly that status, whatever the ticket's status was
  (a COMPLETED ticket goes back to WAITING); the tickets with another key are not
  touched. Only membership in the list of status strings is checked: a string outside
  it is rejected with code 400 and nothing changes. The table of visits is never
  changed, so the status is not mirrored onto the visit.
\<close>

theorem update_appointment_status_unchecked:
  "(status \<in> set valid_statuses \<and> get_ticket s tid = Some t \<longrightarrow>
      (\<exists>res t'. fst (update_appointment_status s tid status now) = Inr res \<and>
          su_success res \<and> su_old_status res = queue_status t \<and> su_new_status res = status \<and>
          get_ticket (snd (update_appointment_status s tid status now)) tid = Some t' \<and>
          queue_status t' = status) \<and>
      filter (\<lambda>u. ticket_id u \<noteq> tid) (queue_tickets (snd (update_appointment_status s tid status now))) =
        filter (\<lambda>u. ticket_id u \<noteq> tid) (queue_tickets s)) \<and>
   (status \<notin> set valid_statuses \<longrightarrow>
      (\<exists>detail. update_appointment_status s tid status now = (Inl (HTTPException 400 detail), s))) \<and>
   visits (snd (update_appointment_status s tid status now)) = visits s"
proof -
  let ?r = "update_appointment_status s tid status now"
  have a: "\<exists>res t'. fst ?r = Inr res \<and>
          su_success res \<and> su_old_status res = queue_status t \<and> su_new_status res = status \<and>
          get_ticket (snd ?r) tid = Some t' \<and> queue_status t' = status"
    if v: "status \<in> set valid_statuses" and t: "get_ticket s tid = Some t"
  proof -
    have "get_ticket (snd ?r) tid = Some (stamp_status status now (t\<lparr>queue_status := status\<rparr>))"
      using v t find_update_where_key[of ticket_id tid "queue_tickets s" t
          "\<lambda>t. stamp_status status now (t\<lparr>queue_status := status\<rparr>)"]
      by (simp add: update_appointment_status_def Let_def get_ticket_def)
    then show ?thesis
      using v t by (simp add: update_appointment_status_def Let_def)
  qed
  have b: "filter (\<lambda>u. ticket_id u \<noteq> tid) (queue_tickets (snd ?r)) =
        filter (\<lambda>u. ticket_id u \<noteq> tid) (queue_tickets s)"
    if v: "status \<in> set valid_statuses" and t: "get_ticket s tid = Some t"
  proof -
    have "ticket_id t = tid"
      using t by (auto simp: get_ticket_def dest: find_key_Some)
    then show ?thesis
      using v t filter_update_where_other[of "\<lambda>u. ticket_id u = tid"
          "\<lambda>t. stamp_status status now (t\<lparr>queue_status := status\<rparr>)" "queue_tickets s"]
      by (simp add: update_appointment_status_def Let_def)
  qed
  have c: "status \<notin> set valid_statuses \<longrightarrow>
      (\<exists>detail. ?r = (Inl (HTTPException 400 detail), s))"
    by (simp add: update_appointment_status_def)
  have d: "visits (snd ?r) = visits s"
    by (simp add: update_appointment_status_def Let_def split: option.splits)
  from a b c d show ?thesis by blast
qed

theorem update_appointment_status_unchecked_witness:
  "''WAITING'' \<in> set valid_statuses \<and>
   map_option queue_status (get_ticket clinic_completed 1) = Some ''COMPLETED'' \<and>
   (\<exists>t'. get_ticket (snd (update_appointment_status clinic_completed 1 ''WAITING'' 12)) 1 = Some t' \<and>
         queue_status t' = ''WAITING'') \<and>
   map visit_status (visits (snd (update_appointment_status clinic_completed 1 ''WAITING'' 12))) =
     [''COMPLETED''] \<and>
   ''DONE'' \<notin> set valid_statuses \<and>
   snd (update_appointment_status clinic_completed 1 ''DONE'' 12) = clinic_completed"
proof -
  have v: "''WAITING'' \<in> set valid_statuses"
    by (simp add: valid_statuses_def)
  have nv: "''DONE'' \<notin> set valid_statuses"
    by (simp add: valid_statuses_def)
  have st: "map_option queue_status (get_ticket clinic_completed 1) = Some ''COMPLETED''"
    by code_simp
  then obtain t where t: "get_ticket clinic_completed 1 = Some t"
    by (cases "get_ticket clinic_completed 1") auto
  have vs: "map visit_status (visits clinic_completed) = [''COMPLETED'']"
    by code_simp
  note w = update_appointment_status_unchecked [of "''WAITING''" clinic_completed 1 t 12]
  note n = update_appointment_status_unchecked [of "''DONE''" clinic_completed 1 t 12]
  have a: "\<exists>t'. get_ticket (snd (update_appointment_status clinic_completed 1 ''WAITING'' 12)) 1 = Some t' \<and>
         queue_status t' = ''WAITING''"
    using w v t by blast
  have b: "map visit_status (visits (snd (update_appointment_status clinic_completed 1 ''WAITING'' 12))) =
     [''COMPLETED'']"
    using w vs by simp
  have c: "snd (update_appointment_status clinic_completed 1 ''DONE'' 12) = clinic_completed"
    using n nv by auto
  from v st a b nv c show ?thesis by blast
qed

subsection \<open>The table of codes under each request\<close>

lemma checkin_otp_verifications:
  "otp_verifications (snd (checkin s0 s1 patient request now today)) = otp_verifications s1 \<or>
   snd (checkin s0 s1 patient request now today) = s0"
  by (simp add: checkin_def Let_def split: option.splits)

lemma map_retry_count_update_where:
  "(\<And>r. retry_count (f r) = retry_count r) \<Longrightarrow>
   map retry_count (update_where P f xs) = map retry_count xs"
  by (simp add: update_where_def)

lemma verify_retry_counts:
  "map retry_count (otp_verifications (snd (verify_otp_and_checkin s request now today))) =
   map retry_count (otp_verifications s)"
proof (cases "find_valid_otp s (vr_phone_number request) (vr_otp_code request) now")
  case None
  then show ?thesis by (simp add: verify_otp_and_checkin_def)
next
  case (Some r)
  show ?thesis
  proof (cases "max_attempts r \<le> retry_count r")
    case True
    with Some show ?thesis
      by (simp add: verify_otp_and_checkin_def map_retry_count_update_where)
  next
    case False
    show ?thesis
    proof (cases "Option.bind (otp_patient_id r) (get_patient s)")
      case None
      with Some False show ?thesis by (simp add: verify_otp_and_checkin_def)
    next
      case (Some p)
      let ?s1 = "s\<lparr>otp_verifications :=
                   update_where (\<lambda>x. otp_id x = otp_id r)
                     (\<lambda>x. x\<lparr>is_verified := True, verified_at := Some now\<rparr>)
                     (otp_verifications s)\<rparr>"
      have eq: "verify_otp_and_checkin s request now today = checkin s ?s1 p request now today"
        using \<open>find_valid_otp s (vr_phone_number request) (vr_otp_code request) now = Some r\<close>
          False Some by (simp add: verify_otp_and_checkin_def Let_def)
      from checkin_otp_verifications [of s ?s1 p request now today] show ?thesis
        unfolding eq by (auto simp: map_retry_count_update_where)
    qed
  qed
qed

lemma sms_checkin_tables:
  "queue_tickets (snd (sms_checkin s request now today code)) = queue_tickets s"
  "visits (snd (sms_checkin s request now today code)) = visits s"
  "otp_verifications (snd (sms_checkin s request now today code)) = otp_verifications s \<or>
   (\<exists>n. otp_verifications (snd (sms_checkin s request now today code)) =
      otp_verifications s @ [n])"
  by (simp_all add: sms_checkin_def Let_def split: option.splits)

lemma exec_other_retry_counts:
  assumes "\<not> is_send_otp op"
  shows "take (length (otp_verifications s)) (map retry_count (otp_verifications (exec s op))) =
    map retry_count (otp_verifications s)"
proof (cases op)
  case (VerifyOtp request now today)
  have "length (otp_verifications s) =
      length (map retry_count (otp_verifications (snd (verify_otp_and_checkin s request now today))))"
    by (simp only: verify_retry_counts length_map)
  then show ?thesis
    unfolding VerifyOtp by (simp add: verify_retry_counts)
next
  case (QrCheckin request now today)
  then show ?thesis
    by (auto simp: qr_checkin_def qr_patient_def Let_def split: option.splits sum.splits prod.splits if_splits)
next
  case (Start request now)
  then show ?thesis by (simp add: start_appointment_def Let_def split: option.splits)
next
  case (UpdateStatus tid status now)
  then show ?thesis by (simp add: update_appointment_status_def Let_def split: option.splits)
next
  case (Complete tid now)
  then show ?thesis by (simp add: complete_appointment_def Let_def split: option.splits)
next
  case (SendOtp phone now code)
  with assms show ?thesis by simp
next
  case (SmsCheckin request now today code)
  from sms_checkin_tables(3) [of s request now today code] show ?thesis
    unfolding SmsCheckin by auto
qed

lemma update_where_mem:
  "x \<in> set xs \<Longrightarrow> P x \<Longrightarrow> f x \<in> set (update_where P f xs)"
  by (auto simp: update_where_def)

text \<open>
  Claim C10. \<^verbatim>\<open>verify_otp_and_checkin\<close> never changes a retry counter. When no
  unverified, unexpired record has the submitted phone number and code, the call fails
  with "Invalid or expired OTP" and the database is as before. Of all the requests
  only issuing or resending a code advances a counter: any other request leaves the
  counters of the existing records as they were, and a resend below the ceiling stores
  the record with its counter increased by one.
\<close>

theorem verify_never_counts_attempts:
  "map retry_count (otp_verifications (snd (verify_otp_and_checkin s request now today))) =
     map retry_count (otp_verifications s) \<and>
   ((\<forall>r \<in> set (otp_verifications s).
        \<not> (otp_phone_number r = vr_phone_number request \<and> otp_code r = vr_otp_code request \<and>
           \<not> is_verified r \<and> \<not> is_expired r \<and> expires_at r > now)) \<longrightarrow>
      verify_otp_and_checkin s request now today = ((False, ''Invalid or expired OTP'', None), s)) \<and>
   (\<not> is_send_otp op \<longrightarrow>
      take (length (otp_verifications s)) (map retry_count (otp_verifications (exec s op))) =
        map retry_count (otp_verifications s)) \<and>
   (\<forall>r. find_existing_otp s phone = Some r \<and> retry_count r < max_attempts r \<longrightarrow>
      r\<lparr>retry_count := retry_count r + 1\<rparr> \<in> set (otp_verifications (snd (send_otp s phone now' code))))"
proof -
  have b: "verify_otp_and_checkin s request now today = ((False, ''Invalid or expired OTP'', None), s)"
    if "\<forall>r \<in> set (otp_verifications s).
        \<not> (otp_phone_number r = vr_phone_number request \<and> otp_code r = vr_otp_code request \<and>
           \<not> is_verified r \<and> \<not> is_expired r \<and> expires_at r > now)"
  proof -
    from that have "find_valid_otp s (vr_phone_number request) (vr_otp_code request) now = None"
      by (auto simp: find_valid_otp_def find_None_iff)
    then show ?thesis by (simp add: verify_otp_and_checkin_def)
  qed
  have d: "r\<lparr>retry_count := retry_count r + 1\<rparr> \<in> set (otp_verifications (snd (send_otp s phone now' code)))"
    if "find_existing_otp s phone = Some r" and "retry_count r < max_attempts r" for r
  proof -
    from that(1) have "r \<in> set (otp_verifications s)"
      by (auto simp: find_existing_otp_def find_Some_iff)
    then have "r\<lparr>retry_count := retry_count r + 1\<rparr> \<in>
        set (update_where (\<lambda>x. otp_id x = otp_id r) (\<lambda>x. x\<lparr>retry_count := retry_count x + 1\<rparr>)
               (otp_verifications s))"
      by (rule update_where_mem) simp
    then show ?thesis
      using that by (simp add: send_otp_def)
  qed
  from verify_retry_counts [of s request now today] b exec_other_retry_counts [of op s] d
  show ?thesis by blast
qed

theorem verify_never_counts_attempts_witness:
  "verify_otp_and_checkin clinic0 (mk_req ''+1-555-1012'' ''000000'') 10 7 =
     ((False, ''Invalid or expired OTP'', None), clinic0) \<and>
   take (length (otp_verifications clinic0))
     (map retry_count (otp_verifications (exec clinic0 (Complete 1 10)))) = [0, 0, 0, 0] \<and>
   find_existing_otp clinic0 ''+1-555-1012'' = Some (mk_otp 2 ''+1-555-1012'' ''654321'' 2) \<and>
   (mk_otp 2 ''+1-555-1012'' ''654321'' 2)\<lparr>retry_count := 1\<rparr> \<in>
     set (otp_verifications (snd (send_otp clinic0 ''+1-555-1012'' 10 ''4711'')))"
proof -
  note w = verify_never_counts_attempts [of clinic0 "mk_req ''+1-555-1012'' ''000000''" 10 7
      "Complete 1 10" "''+1-555-1012''" 10 "''4711''"]
  have h: "\<forall>r \<in> set (otp_verifications clinic0).
        \<not> (otp_phone_number r = vr_phone_number (mk_req ''+1-555-1012'' ''000000'') \<and>
           otp_code r = vr_otp_code (mk_req ''+1-555-1012'' ''000000'') \<and>
           \<not> is_verified r \<and> \<not> is_expired r \<and> expires_at r > 10)"
    by (simp add: clinic0_def mk_req_def mk_otp_def)
  have a: "verify_otp_and_checkin clinic0 (mk_req ''+1-555-1012'' ''000000'') 10 7 =
     ((False, ''Invalid or expired OTP'', None), clinic0)"
    using w h by blast
  have rc: "map retry_count (otp_verifications clinic0) = [0, 0, 0, 0]"
    by (simp add: clinic0_def mk_otp_def)
  have b: "take (length (otp_verifications clinic0))
     (map retry_count (otp_verifications (exec clinic0 (Complete 1 10)))) = [0, 0, 0, 0]"
    using w rc by simp
  have c: "find_existing_otp clinic0 ''+1-555-1012'' = Some (mk_otp 2 ''+1-555-1012'' ''654321'' 2)"
    by code_simp
  have d: "(mk_otp 2 ''+1-555-1012'' ''654321'' 2)\<lparr>retry_count := 1\<rparr> \<in>
     set (otp_verifications (snd (send_otp clinic0 ''+1-555-1012'' 10 ''4711'')))"
    using w c by (simp add: mk_otp_def)
  from a b c d show ?thesis by blast
qed

subsection \<open>Issuing and resending a code\<close>

text \<open>
  \<^verbatim>\<open>send_otp\<close> decides by the flags alone. It looks for the first record of the
  phone number whose expired and verified flags are both unset, whatever the time of
  expiry. If that record's retry counter has reached its maximum, the call fails with
  code 429 and changes nothing; if the counter is below the maximum, the counter is
  increased by one and the code of the existing record is returned; if there is no
  such record, a new record is appended with counter 0, maximum 3, both flags unset
  and an expiry 5 minutes after the call.
\<close>

lemma send_otp_by_flags:
  "(find_existing_otp s phone = None \<longleftrightarrow>
      \<not> (\<exists>r \<in> set (otp_verifications s).
            otp_phone_number r = phone \<and> \<not> is_expired r \<and> \<not> is_verified r)) \<and>
   (\<forall>r. find_existing_otp s phone = Some r \<and> retry_count r \<ge> max_attempts r \<longrightarrow>
      send_otp s phone now code =
        (Inl (HTTPException 429 ''Maximum OTP request attempts reached. Please try again later.''), s)) \<and>
   (\<forall>r. find_existing_otp s phone = Some r \<and> retry_count r < max_attempts r \<longrightarrow>
      (\<exists>resp. fst (send_otp s phone now code) = Inr resp \<and>
          os_otp_id resp = otp_id r \<and> os_otp_code resp = otp_code r) \<and>
      r\<lparr>retry_count := retry_count r + 1\<rparr> \<in> set (otp_verifications (snd (send_otp s phone now code))) \<and>
      length (otp_verifications (snd (send_otp s phone now code))) = length (otp_verifications s)) \<and>
   (find_existing_otp s phone = None \<longrightarrow>
      (\<exists>resp n. fst (send_otp s phone now code) = Inr resp \<and>
          os_otp_id resp = otp_id n \<and> os_otp_code resp = code \<and> os_expires_at resp = expires_at n \<and>
          otp_verifications (snd (send_otp s phone now code)) = otp_verifications s @ [n] \<and>
          otp_phone_number n = phone \<and> otp_code n = code \<and>
          \<not> is_verified n \<and> \<not> is_expired n \<and> retry_count n = 0 \<and> max_attempts n = 3 \<and>
          now + minutes 5 \<le> expires_at n \<and> expires_at n \<le> now + minutes 10))"
proof -
  let ?r = "send_otp s phone now code"
  have a: "find_existing_otp s phone = None \<longleftrightarrow>
      \<not> (\<exists>r \<in> set (otp_verifications s).
            otp_phone_number r = phone \<and> \<not> is_expired r \<and> \<not> is_verified r)"
    by (auto simp: find_existing_otp_def find_None_iff)
  have b: "\<forall>r. find_existing_otp s phone = Some r \<and> retry_count r \<ge> max_attempts r \<longrightarrow>
      ?r = (Inl (HTTPException 429 ''Maximum OTP request attempts reached. Please try again later.''), s)"
    by (simp add: send_otp_def)
  have c: "(\<exists>resp. fst ?r = Inr resp \<and> os_otp_id resp = otp_id r \<and> os_otp_code resp = otp_code r) \<and>
      r\<lparr>retry_count := retry_count r + 1\<rparr> \<in> set (otp_verifications (snd ?r)) \<and>
      length (otp_verifications (snd ?r)) = length (otp_verifications s)"
    if f: "find_existing_otp s phone = Some r" and lt: "retry_count r < max_attempts r" for r
  proof -
    from f have "r \<in> set (otp_verifications s)"
      by (auto simp: find_existing_otp_def find_Some_iff)
    then have "r\<lparr>retry_count := retry_count r + 1\<rparr> \<in>
        set (update_where (\<lambda>x. otp_id x = otp_id r) (\<lambda>x. x\<lparr>retry_count := retry_count x + 1\<rparr>)
               (otp_verifications s))"
      by (rule update_where_mem) simp
    then show ?thesis
      using f lt by (simp add: send_otp_def update_where_def)
  qed
  have d: "find_existing_otp s phone = None \<longrightarrow>
      (\<exists>resp n. fst ?r = Inr resp \<and>
          os_otp_id resp = otp_id n \<and> os_otp_code resp = code \<and> os_expires_at resp = expires_at n \<and>
          otp_verifications (snd ?r) = otp_verifications s @ [n] \<and>
          otp_phone_number n = phone \<and> otp_code n = code \<and>
          \<not> is_verified n \<and> \<not> is_expired n \<and> retry_count n = 0 \<and> max_attempts n = 3 \<and>
          now + minutes 5 \<le> expires_at n \<and> expires_at n \<le> now + minutes 10)"
    by (simp add: send_otp_def Let_def minutes_def)
  from a b c d show ?thesis by blast
qed

lemma send_otp_by_flags_examples:
  "find_existing_otp clinic_resent ''+1-555-1012'' =
     Some ((mk_otp 2 ''+1-555-1012'' ''654321'' 2)\<lparr>retry_count := 3\<rparr>) \<and>
   send_otp clinic_resent ''+1-555-1012'' 13 ''4714'' =
     (Inl (HTTPException 429 ''Maximum OTP request attempts reached. Please try again later.''),
      clinic_resent) \<and>
   find_existing_otp clinic0 ''+1-555-1012'' = Some (mk_otp 2 ''+1-555-1012'' ''654321'' 2) \<and>
   (\<exists>resp. fst (send_otp clinic0 ''+1-555-1012'' 10 ''4711'') = Inr resp \<and>
      os_otp_code resp = ''654321'') \<and>
   find_existing_otp clinic0 ''+1-555-1019'' = None \<and>
   (\<exists>n. otp_verifications (snd (send_otp clinic0 ''+1-555-1019'' 10 ''4711'')) =
          otp_verifications clinic0 @ [n] \<and> retry_count n = 0 \<and>
          10 + minutes 5 \<le> expires_at n \<and> expires_at n \<le> 10 + minutes 10)"
proof -
  have f1: "find_existing_otp clinic_resent ''+1-555-1012'' =
     Some ((mk_otp 2 ''+1-555-1012'' ''654321'' 2)\<lparr>retry_count := 3\<rparr>)"
    by code_simp
  have a: "send_otp clinic_resent ''+1-555-1012'' 13 ''4714'' =
     (Inl (HTTPException 429 ''Maximum OTP request attempts reached. Please try again later.''),
      clinic_resent)"
    using send_otp_by_flags [of clinic_resent "''+1-555-1012''" 13 "''4714''"] f1
    by (auto simp: mk_otp_def)
  have f2: "find_existing_otp clinic0 ''+1-555-1012'' = Some (mk_otp 2 ''+1-555-1012'' ''654321'' 2)"
    by code_simp
  have b: "\<exists>resp. fst (send_otp clinic0 ''+1-555-1012'' 10 ''4711'') = Inr resp \<and>
      os_otp_code resp = ''654321''"
    using send_otp_by_flags [of clinic0 "''+1-555-1012''" 10 "''4711''"] f2
    by (auto simp: mk_otp_def)
  have f3: "find_existing_otp clinic0 ''+1-555-1019'' = None"
    by code_simp
  have c: "\<exists>n. otp_verifications (snd (send_otp clinic0 ''+1-555-1019'' 10 ''4711'')) =
          otp_verifications clinic0 @ [n] \<and> retry_count n = 0 \<and>
          10 + minutes 5 \<le> expires_at n \<and> expires_at n \<le> 10 + minutes 10"
    using send_otp_by_flags [of clinic0 "''+1-555-1019''" 10 "''4711''"] f3 by blast
  from f1 a f2 b f3 c show ?thesis by blast
qed

text \<open>
  Claim C7. An issue must append a new record, with counter 0 and an expiry 5 to 10
  minutes ahead, whenever the phone number has no unexpired, unverified record.
  \<^verbatim>\<open>send_otp\<close> never reads the time of expiry, which the lookup of
  \<^verbatim>\<open>verify_otp_and_checkin\<close> does: the record issued at time 10 has expired at
  time 310 and no verification finds it at time 400, yet an issue at time 400 appends
  nothing, advances the counter of the dead record and returns its code and its past
  expiry. After three such calls every further issue for the phone number fails with
  code 429, at any later time.
\<close>

theorem send_otp_reuses_expired_record:
  "map_option expires_at (find_existing_otp clinic_issued ''+1-555-1019'') = Some 310 \<and>
   find_valid_otp clinic_issued ''+1-555-1019'' ''4711'' 400 = None \<and>
   fst (send_otp clinic_issued ''+1-555-1019'' 400 ''4712'') =
     Inr \<lparr>os_message = ''OTP resent successfully'', os_otp_id = 5, os_otp_code = ''4711'',
          os_expires_at = 310\<rparr> \<and>
   length (otp_verifications (snd (send_otp clinic_issued ''+1-555-1019'' 400 ''4712''))) =
     length (otp_verifications clinic_issued) \<and>
   map_option retry_count
     (find_existing_otp (snd (send_otp clinic_issued ''+1-555-1019'' 400 ''4712'')) ''+1-555-1019'') =
     Some 1 \<and>
   send_otp
     (run clinic_issued [SendOtp ''+1-555-1019'' 400 ''4712'', SendOtp ''+1-555-1019'' 401 ''4713'',
                         SendOtp ''+1-555-1019'' 402 ''4714''])
     ''+1-555-1019'' 100000 ''4715'' =
     (Inl (HTTPException 429 ''Maximum OTP request attempts reached. Please try again later.''),
      run clinic_issued [SendOtp ''+1-555-1019'' 400 ''4712'', SendOtp ''+1-555-1019'' 401 ''4713'',
                         SendOtp ''+1-555-1019'' 402 ''4714''])"
  by code_simp

subsection \<open>A new check-in by code\<close>

lemma max_position_tickets:
  "queue_tickets a = queue_tickets b \<Longrightarrow> max_position a today = max_position b today"
  by (simp add: max_position_def active_tickets_def)

lemma get_department_departments:
  "departments a = departments b \<Longrightarrow> get_department a did = get_department b did"
  by (simp add: get_department_def split: option.splits)

lemma checkin_new:
  assumes "fst (checkin s0 s1 patient request now today) = (True, ''Check-in successful'', Some d)"
  shows "\<exists>st t.
     (case get_department s1 (vr_department_id request) of
        None \<Rightarrow> st = 30 | Some dep \<Rightarrow> average_service_time dep = Some st) \<and>
     find_open_visit s1 (patient_id patient) today = None \<and>
     cd_queue_position d = Some (max_position s1 today + 1) \<and>
     cd_estimated_wait_time d = Some (estimated_wait (max_position s1 today + 1) st) \<and>
     cd_ticket_id d = Some (ticket_id t) \<and>
     queue_tickets (snd (checkin s0 s1 patient request now today)) = queue_tickets s1 @ [t] \<and>
     queue_position t = max_position s1 today + 1 \<and> queue_date t = today \<and>
     queue_status t = ''WAITING'' \<and>
     estimated_wait_time t = Some (estimated_wait (max_position s1 today + 1) st)"
proof -
  let ?s2 = "s1\<lparr>visits := visits s1 @
      [\<lparr>visit_id = next_id (map visit_id (visits s1)), visit_patient_id = patient_id patient,
        visit_department_id = vr_department_id request, visit_doctor_id = vr_doctor_id request,
        visit_date = today, check_in_datetime = Some now,
        check_in_method = vr_check_in_method request, visit_status = ''ACTIVE'',
        completed_datetime = None\<rparr>]\<rparr>"
  have m: "max_position ?s2 today = max_position s1 today"
    by (rule max_position_tickets) simp
  have g: "get_department ?s2 (vr_department_id request) = get_department s1 (vr_department_id request)"
    by (rule get_department_departments) simp
  from assms show ?thesis
    unfolding checkin_def Let_def m g
    by (auto split: option.splits)
qed

lemma verify_cases:
  "verify_otp_and_checkin s request now today = ((False, ''Invalid or expired OTP'', None), s) \<or>
   fst (verify_otp_and_checkin s request now today) =
     (False, ''Maximum OTP verification attempts exceeded'', None) \<or>
   verify_otp_and_checkin s request now today = ((False, ''Patient not found'', None), s) \<or>
   (\<exists>r p. find_valid_otp s (vr_phone_number request) (vr_otp_code request) now = Some r \<and>
      verify_otp_and_checkin s request now today =
        checkin s (s\<lparr>otp_verifications :=
                     update_where (\<lambda>x. otp_id x = otp_id r)
                       (\<lambda>x. x\<lparr>is_verified := True, verified_at := Some now\<rparr>)
                       (otp_verifications s)\<rparr>) p request now today)"
proof (cases "find_valid_otp s (vr_phone_number request) (vr_otp_code request) now")
  case None
  then show ?thesis by (simp add: verify_otp_and_checkin_def)
next
  case (Some r)
  show ?thesis
  proof (cases "max_attempts r \<le> retry_count r")
    case True
    with Some show ?thesis by (simp add: verify_otp_and_checkin_def)
  next
    case False
    show ?thesis
    proof (cases "Option.bind (otp_patient_id r) (get_patient s)")
      case None
      with \<open>find_valid_otp s (vr_phone_number request) (vr_otp_code request) now = Some r\<close> False
      show ?thesis by (simp add: verify_otp_and_checkin_def)
    next
      case (Some p)
      with \<open>find_valid_otp s (vr_phone_number request) (vr_otp_code request) now = Some r\<close> False
      have "verify_otp_and_checkin s request now today =
        checkin s (s\<lparr>otp_verifications :=
                     update_where (\<lambda>x. otp_id x = otp_id r)
                       (\<lambda>x. x\<lparr>is_verified := True, verified_at := Some now\<rparr>)
                       (otp_verifications s)\<rparr>) p request now today"
        by (simp add: verify_otp_and_checkin_def Let_def)
      with \<open>find_valid_otp s (vr_phone_number request) (vr_otp_code request) now = Some r\<close>
      show ?thesis by blast
    qed
  qed
qed

lemma verify_new_checkin:
  assumes "fst (verify_otp_and_checkin s request now today) = (True, ''Check-in successful'', Some d)"
  shows "\<exists>st t.
     (case get_department s (vr_department_id request) of
        None \<Rightarrow> st = 30 | Some dep \<Rightarrow> average_service_time dep = Some st) \<and>
     cd_queue_position d = Some (max_position s today + 1) \<and>
     cd_estimated_wait_time d = Some (estimated_wait (max_position s today + 1) st) \<and>
     cd_ticket_id d = Some (ticket_id t) \<and>
     queue_tickets (snd (verify_otp_and_checkin s request now today)) = queue_tickets s @ [t] \<and>
     queue_position t = max_position s today + 1 \<and> queue_date t = today \<and>
     queue_status t = ''WAITING'' \<and>
     estimated_wait_time t = Some (estimated_wait (max_position s today + 1) st)"
proof -
  have n1: "verify_otp_and_checkin s request now today \<noteq>
      ((False, ''Invalid or expired OTP'', None), s)"
    using assms by auto
  have n2: "fst (verify_otp_and_checkin s request now today) \<noteq>
      (False, ''Maximum OTP verification attempts exceeded'', None)"
    using assms by auto
  have n3: "verify_otp_and_checkin s request now today \<noteq> ((False, ''Patient not found'', None), s)"
    using assms by auto
  from n1 n2 n3 verify_cases [of s request now today] obtain r :: OTPVerification and p where
    eq: "verify_otp_and_checkin s request now today =
      checkin s (s\<lparr>otp_verifications :=
                   update_where (\<lambda>x. otp_id x = otp_id r)
                     (\<lambda>x. x\<lparr>is_verified := True, verified_at := Some now\<rparr>)
                     (otp_verifications s)\<rparr>) p request now today"
    by blast
  let ?s1 = "s\<lparr>otp_verifications :=
                   update_where (\<lambda>x. otp_id x = otp_id r)
                     (\<lambda>x. x\<lparr>is_verified := True, verified_at := Some now\<rparr>)
                     (otp_verifications s)\<rparr>"
  have m: "max_position ?s1 today = max_position s today"
    by (rule max_position_tickets) simp
  have g: "get_department ?s1 (vr_department_id request) = get_department s (vr_department_id request)"
    by (rule get_department_departments) simp
  from checkin_new [of s ?s1 p request now today d] assms show ?thesis
    unfolding eq m g by auto
qed

lemma sql_max_Max: "xs \<noteq> [] \<Longrightarrow> sql_max xs = Some (Max (set xs))"
proof (cases xs)
  case Nil
  then show "xs \<noteq> [] \<Longrightarrow> ?thesis" by simp
next
  case (Cons a list)
  show ?thesis
    unfolding Cons sql_max_def using Max.set_eq_fold [of a list] by simp
qed

lemma max_position_Max:
  "max_position s today =
     (if active_tickets s today = [] then 0
      else Max (set (map queue_position (active_tickets s today))))"
  by (simp add: max_position_def sql_max_Max) (simp add: sql_max_def)

subsection \<open>The estimate of the waiting time\<close>

text \<open>
  Claim C8. The estimate is (position - 1) times the service time, for every position
  and service time, and 0 at position 1. At a successful new check-in by code the
  estimate returned is the one stored in the new ticket, and it is (position - 1)
  times the average service time of the first department row whose key is the
  department of the request, or times 30 when the request names no department or no
  row has that key.
\<close>

theorem estimated_wait_at_checkin:
  "estimated_wait p st = (p - 1) * st \<and> estimated_wait 1 st = 0 \<and>
   (fst (verify_otp_and_checkin s request now today) = (True, ''Check-in successful'', Some d) \<longrightarrow>
      (\<exists>pos t.
         cd_queue_position d = Some pos \<and>
         queue_tickets (snd (verify_otp_and_checkin s request now today)) = queue_tickets s @ [t] \<and>
         queue_position t = pos \<and> estimated_wait_time t = cd_estimated_wait_time d \<and>
         (\<forall>did dep. vr_department_id request = Some did \<and>
              find (\<lambda>x. department_id x = did) (departments s) = Some dep \<longrightarrow>
              (\<exists>avg. average_service_time dep = Some avg \<and>
                    cd_estimated_wait_time d = Some ((pos - 1) * avg))) \<and>
         (vr_department_id request = None \<longrightarrow>
            cd_estimated_wait_time d = Some ((pos - 1) * 30)) \<and>
         (\<forall>did. vr_department_id request = Some did \<and>
              (\<forall>dep \<in> set (departments s). department_id dep \<noteq> did) \<longrightarrow>
              cd_estimated_wait_time d = Some ((pos - 1) * 30))))"
proof -
  have a: "estimated_wait p st = (p - 1) * st" and b: "estimated_wait 1 st = 0"
    by (simp_all add: estimated_wait_def)
  have c: "\<exists>pos t.
         cd_queue_position d = Some pos \<and>
         queue_tickets (snd (verify_otp_and_checkin s request now today)) = queue_tickets s @ [t] \<and>
         queue_position t = pos \<and> estimated_wait_time t = cd_estimated_wait_time d \<and>
         (\<forall>did dep. vr_department_id request = Some did \<and>
              find (\<lambda>x. department_id x = did) (departments s) = Some dep \<longrightarrow>
              (\<exists>avg. average_service_time dep = Some avg \<and>
                    cd_estimated_wait_time d = Some ((pos - 1) * avg))) \<and>
         (vr_department_id request = None \<longrightarrow>
            cd_estimated_wait_time d = Some ((pos - 1) * 30)) \<and>
         (\<forall>did. vr_department_id request = Some did \<and>
              (\<forall>dep \<in> set (departments s). department_id dep \<noteq> did) \<longrightarrow>
              cd_estimated_wait_time d = Some ((pos - 1) * 30))"
    if ok: "fst (verify_otp_and_checkin s request now today) = (True, ''Check-in successful'', Some d)"
  proof -
    from verify_new_checkin [OF ok] obtain avg t where
      dep: "case get_department s (vr_department_id request) of
          None \<Rightarrow> avg = 30 | Some dep \<Rightarrow> average_service_time dep = Some avg"
      and pos: "cd_queue_position d = Some (max_position s today + 1)"
      and est: "cd_estimated_wait_time d = Some (estimated_wait (max_position s today + 1) avg)"
      and tk: "queue_tickets (snd (verify_otp_and_checkin s request now today)) = queue_tickets s @ [t]"
        "queue_position t = max_position s today + 1"
        "estimated_wait_time t = Some (estimated_wait (max_position s today + 1) avg)"
      by blast
    let ?pos = "max_position s today + 1"
    have e: "cd_estimated_wait_time d = Some ((?pos - 1) * avg)"
      using est by (simp add: estimated_wait_def)
    have c1: "\<exists>a. average_service_time dp = Some a \<and> cd_estimated_wait_time d = Some ((?pos - 1) * a)"
      if "vr_department_id request = Some did"
        and "find (\<lambda>x. department_id x = did) (departments s) = Some dp" for did dp
      using that dep e by (simp add: get_department_def)
    have c2: "cd_estimated_wait_time d = Some ((?pos - 1) * 30)"
      if "vr_department_id request = None"
      using that dep e by (simp add: get_department_def)
    have c3: "cd_estimated_wait_time d = Some ((?pos - 1) * 30)"
      if "vr_department_id request = Some did"
        and "\<forall>dp \<in> set (departments s). department_id dp \<noteq> did" for did
    proof -
      from that(2) have "find (\<lambda>x. department_id x = did) (departments s) = None"
        by (simp add: find_None_iff)
      with that(1) dep e show ?thesis by (simp add: get_department_def)
    qed
    from pos tk est c1 c2 c3 show ?thesis by auto
  qed
  from a b c show ?thesis by blast
qed

theorem estimated_wait_at_checkin_witness:
  "fst (verify_otp_and_checkin clinic_two_departments (request_for (Some 6)) 11 7) =
     (True, ''Check-in successful'',
      Some \<lparr>cd_patient_id = 2, cd_visit_id = 2, cd_ticket_id = Some 2,
            cd_queue_position = Some 2, cd_estimated_wait_time = Some 15\<rparr>) \<and>
   find (\<lambda>x. department_id x = 6) (departments clinic_two_departments) =
     Some \<lparr>department_id = 6, average_service_time = Some 15\<rparr> \<and>
   (\<exists>t. queue_tickets (snd (verify_otp_and_checkin clinic_two_departments (request_for (Some 6)) 11 7)) =
          queue_tickets clinic_two_departments @ [t] \<and>
        queue_position t = 2 \<and> estimated_wait_time t = Some ((2 - 1) * 15)) \<and>
   fst (verify_otp_and_checkin clinic_two_departments (request_for None) 11 7) =
     (True, ''Check-in successful'',
      Some \<lparr>cd_patient_id = 2, cd_visit_id = 2, cd_ticket_id = Some 2,
            cd_queue_position = Some 2, cd_estimated_wait_time = Some 30\<rparr>) \<and>
   (\<exists>t. queue_tickets (snd (verify_otp_and_checkin clinic_two_departments (request_for None) 11 7)) =
          queue_tickets clinic_two_departments @ [t] \<and>
        queue_position t = 2 \<and> estimated_wait_time t = Some ((2 - 1) * 30)) \<and>
   fst (verify_otp_and_checkin clinic_two_departments (request_for (Some 9)) 11 7) =
     (True, ''Check-in successful'',
      Some \<lparr>cd_patient_id = 2, cd_visit_id = 2, cd_ticket_id = Some 2,
            cd_queue_position = Some 2, cd_estimated_wait_time = Some 30\<rparr>)"
proof -
  let ?d15 = "\<lparr>cd_patient_id = 2, cd_visit_id = 2, cd_ticket_id = Some 2,
            cd_queue_position = Some 2, cd_estimated_wait_time = Some 15\<rparr>"
  let ?d30 = "\<lparr>cd_patient_id = 2, cd_visit_id = 2, cd_ticket_id = Some 2,
            cd_queue_position = Some 2, cd_estimated_wait_time = Some 30\<rparr>"
  have r6: "fst (verify_otp_and_checkin clinic_two_departments (request_for (Some 6)) 11 7) =
     (True, ''Check-in successful'', Some ?d15)"
    by code_simp
  have rn: "fst (verify_otp_and_checkin clinic_two_departments (request_for None) 11 7) =
     (True, ''Check-in successful'', Some ?d30)"
    by code_simp
  have r9: "fst (verify_otp_and_checkin clinic_two_departments (request_for (Some 9)) 11 7) =
     (True, ''Check-in successful'', Some ?d30)"
    by code_simp
  have f: "find (\<lambda>x. department_id x = 6) (departments clinic_two_departments) =
     Some \<lparr>department_id = 6, average_service_time = Some 15\<rparr>"
    by (simp add: clinic_two_departments_def)
  have k: "vr_department_id (request_for did) = did" for did
    by (simp add: request_for_def)
  from estimated_wait_at_checkin [of 2 15 clinic_two_departments "request_for (Some 6)" 11 7 ?d15] r6 f k
  have a: "\<exists>t. queue_tickets (snd (verify_otp_and_checkin clinic_two_departments (request_for (Some 6)) 11 7)) =
          queue_tickets clinic_two_departments @ [t] \<and>
        queue_position t = 2 \<and> estimated_wait_time t = Some ((2 - 1) * 15)"
    by auto
  from estimated_wait_at_checkin [of 2 30 clinic_two_departments "request_for None" 11 7 ?d30] rn k
  have b: "\<exists>t. queue_tickets (snd (verify_otp_and_checkin clinic_two_departments (request_for None) 11 7)) =
          queue_tickets clinic_two_departments @ [t] \<and>
        queue_position t = 2 \<and> estimated_wait_time t = Some ((2 - 1) * 30)"
    by auto
  from r6 f a rn b r9 show ?thesis by blast
qed

subsection \<open>The position of a new ticket\<close>

lemma qr_patient_tables:
  assumes "qr_patient s request = Inr (p, s1)"
  shows "queue_tickets s1 = queue_tickets s" and "visits s1 = visits s"
    and "otp_verifications s1 = otp_verifications s" and "departments s1 = departments s"
  using assms
  by (auto simp: qr_patient_def Let_def split: option.splits prod.splits if_splits)

lemma qr_checkin_new:
  assumes "fst (qr_checkin s request now today) = Inr resp"
  shows "\<exists>t. queue_tickets (snd (qr_checkin s request now today)) = queue_tickets s @ [t] \<and>
     ticket_id t = next_id (map ticket_id (queue_tickets s)) \<and>
     queue_date t = today \<and> queue_status t = ''WAITING'' \<and>
     queue_position t = int (length (filter (\<lambda>t. queue_date t = today) (queue_tickets s))) + 1 \<and>
     qr_queue_position resp = queue_position t"
proof (cases "qr_patient s request")
  case (Inl e)
  with assms show ?thesis by (simp add: qr_checkin_def)
next
  case (Inr ps)
  obtain p s1 where ps: "ps = (p, s1)" by (cases ps)
  from Inr ps have q: "queue_tickets s1 = queue_tickets s"
    by (simp add: qr_patient_tables(1))
  from assms Inr ps show ?thesis
    by (auto simp: qr_checkin_def Let_def q)
qed

lemma otp_checkin_position:
  assumes ok: "fst (verify_otp_and_checkin s request now today) = (True, ''Check-in successful'', Some d)"
  shows "cd_queue_position d =
       Some (1 + (if active_tickets s today = [] then 0
                  else Max (set (map queue_position (active_tickets s today))))) \<and>
     (\<exists>t. queue_tickets (snd (verify_otp_and_checkin s request now today)) = queue_tickets s @ [t] \<and>
          queue_date t = today \<and> queue_status t = ''WAITING'' \<and>
          Some (queue_position t) = cd_queue_position d) \<and>
     (set (map queue_position (active_tickets s today)) = {1, 2} \<and>
      (\<exists>dep. get_department s (vr_department_id request) = Some dep \<and>
             average_service_time dep = Some 20) \<longrightarrow>
      cd_queue_position d = Some 3 \<and> cd_estimated_wait_time d = Some 40)"
proof -
  from verify_new_checkin [OF ok] obtain st t where
    dep: "case get_department s (vr_department_id request) of
        None \<Rightarrow> st = 30 | Some dep \<Rightarrow> average_service_time dep = Some st"
    and pos: "cd_queue_position d = Some (max_position s today + 1)"
    and est: "cd_estimated_wait_time d = Some (estimated_wait (max_position s today + 1) st)"
    and tk: "queue_tickets (snd (verify_otp_and_checkin s request now today)) = queue_tickets s @ [t]"
      "queue_position t = max_position s today + 1" "queue_date t = today"
      "queue_status t = ''WAITING''"
    by blast
  have a: "cd_queue_position d =
       Some (1 + (if active_tickets s today = [] then 0
                  else Max (set (map queue_position (active_tickets s today)))))"
    using pos by (simp add: max_position_Max)
  have b: "\<exists>t. queue_tickets (snd (verify_otp_and_checkin s request now today)) = queue_tickets s @ [t] \<and>
          queue_date t = today \<and> queue_status t = ''WAITING'' \<and>
          Some (queue_position t) = cd_queue_position d"
    using tk pos by auto
  have c: "cd_queue_position d = Some 3 \<and> cd_estimated_wait_time d = Some 40"
    if p: "set (map queue_position (active_tickets s today)) = {1, 2}"
      and q: "\<exists>dep. get_department s (vr_department_id request) = Some dep \<and>
             average_service_time dep = Some 20"
  proof -
    from p have ne: "active_tickets s today \<noteq> []" by auto
    have "max_position s today = Max {1, 2}"
      unfolding max_position_Max using ne p by simp
    then have m: "max_position s today = 2" by simp
    from q dep have "st = 20" by auto
    with m pos est show ?thesis by (simp add: estimated_wait_def)
  qed
  from a b c show ?thesis by blast
qed

text \<open>
  Claim C2, as amended. At a successful new check-in by code on a day, the position of
  the new ticket is 1 plus the largest position among the tickets of that day whose
  status is WAITING, CALLED or IN_PROGRESS (1 when there is none); when these
  positions are 1 and 2 and the department of the request has an average service time
  of 20, the position is 3 and the estimated wait 40. At a check-in by QR code the
  position is 1 plus the number of all tickets of that day, whatever their status.
\<close>

theorem admission_position:
  "(fst (verify_otp_and_checkin s request now today) = (True, ''Check-in successful'', Some d) \<longrightarrow>
     cd_queue_position d =
       Some (1 + (if active_tickets s today = [] then 0
                  else Max (set (map queue_position (active_tickets s today))))) \<and>
     (\<exists>t. queue_tickets (snd (verify_otp_and_checkin s request now today)) = queue_tickets s @ [t] \<and>
          queue_date t = today \<and> queue_status t = ''WAITING'' \<and>
          Some (queue_position t) = cd_queue_position d) \<and>
     (set (map queue_position (active_tickets s today)) = {1, 2} \<and>
      (\<exists>dep. get_department s (vr_department_id request) = Some dep \<and>
             average_service_time dep = Some 20) \<longrightarrow>
      cd_queue_position d = Some 3 \<and> cd_estimated_wait_time d = Some 40)) \<and>
   (fst (qr_checkin s qr_request now today) = Inr resp \<longrightarrow>
     qr_queue_position resp =
       1 + int (length (filter (\<lambda>t. queue_date t = today) (queue_tickets s))) \<and>
     (\<exists>t. queue_tickets (snd (qr_checkin s qr_request now today)) = queue_tickets s @ [t] \<and>
          queue_date t = today \<and> queue_status t = ''WAITING'' \<and>
          queue_position t = qr_queue_position resp))"
proof -
  have q: "qr_queue_position resp =
       1 + int (length (filter (\<lambda>t. queue_date t = today) (queue_tickets s))) \<and>
     (\<exists>t. queue_tickets (snd (qr_checkin s qr_request now today)) = queue_tickets s @ [t] \<and>
          queue_date t = today \<and> queue_status t = ''WAITING'' \<and>
          queue_position t = qr_queue_position resp)"
    if "fst (qr_checkin s qr_request now today) = Inr resp"
    using qr_checkin_new [OF that] by auto
  from otp_checkin_position [of s request now today d] q show ?thesis by blast
qed

theorem admission_position_witness:
  "map queue_position (active_tickets clinic_two_waiting 7) = [1, 2] \<and>
   get_department clinic_two_waiting (vr_department_id (mk_req ''+1-555-1013'' ''111111'')) =
     Some \<lparr>department_id = 5, average_service_time = Some 20\<rparr> \<and>
   (\<exists>d. fst (verify_otp_and_checkin clinic_two_waiting (mk_req ''+1-555-1013'' ''111111'') 12 7) =
          (True, ''Check-in successful'', Some d) \<and>
        cd_queue_position d = Some 3 \<and> cd_estimated_wait_time d = Some 40) \<and>
   map queue_date (queue_tickets clinic_completed) = [7] \<and>
   (\<exists>resp. fst (qr_checkin clinic_completed (mk_qr ''+1-555-1012'') 12 7) = Inr resp \<and>
        qr_queue_position resp = 2)"
proof -
  let ?d = "\<lparr>cd_patient_id = 3, cd_visit_id = 3, cd_ticket_id = Some 3,
             cd_queue_position = Some (max_position clinic_two_waiting 7 + 1),
             cd_estimated_wait_time = Some (estimated_wait (max_position clinic_two_waiting 7 + 1) 20)\<rparr>"
  let ?resp = "\<lparr>qr_success = True, qr_message = ''Check-in successful'', qr_patient_id = 2,
      qr_visit_id = 2, qr_ticket_id = 2,
      qr_queue_position = int (length (filter (\<lambda>t. queue_date t = 7) (queue_tickets clinic_completed))) + 1\<rparr>"
  have ps: "map queue_position (active_tickets clinic_two_waiting 7) = [1, 2]"
    by code_simp
  have g: "get_department clinic_two_waiting (vr_department_id (mk_req ''+1-555-1013'' ''111111'')) =
     Some \<lparr>department_id = 5, average_service_time = Some 20\<rparr>"
    by code_simp
  have r: "fst (verify_otp_and_checkin clinic_two_waiting (mk_req ''+1-555-1013'' ''111111'') 12 7) =
          (True, ''Check-in successful'', Some ?d)"
    by code_simp
  have qd: "map queue_date (queue_tickets clinic_completed) = [7]"
    by code_simp
  have qr: "fst (qr_checkin clinic_completed (mk_qr ''+1-555-1012'') 12 7) = Inr ?resp"
    by code_simp
  from qd have ql: "length (filter (\<lambda>t. queue_date t = 7) (queue_tickets clinic_completed)) = 1"
    by (cases "queue_tickets clinic_completed") auto
  from ps have s: "set (map queue_position (active_tickets clinic_two_waiting 7)) = {1, 2}"
    by simp
  note w = admission_position [of clinic_two_waiting "mk_req ''+1-555-1013'' ''111111''" 12 7 ?d]
  note v = admission_position [where s = clinic_completed and now = 12 and today = 7
      and qr_request = "mk_qr ''+1-555-1012''" and resp = ?resp]
  from w r s g have a: "cd_queue_position ?d = Some 3 \<and> cd_estimated_wait_time ?d = Some 40"
    by (auto simp: estimated_wait_def)
  from v qr ql have b: "qr_queue_position ?resp = 2"
    by auto
  from ps g r a qd qr b show ?thesis by blast
qed

text \<open>
  The position is not one more than the number of active tickets: with ticket 1
  completed and ticket 2 waiting at position 2, one ticket is active, and the third
  patient receives position 3.
\<close>

theorem position_is_not_queue_depth_counterexample:
  "fst (verify_otp_and_checkin clinic_first_done (mk_req ''+1-555-1013'' ''111111'') 13 7) =
     (True, ''Check-in successful'',
      Some \<lparr>cd_patient_id = 3, cd_visit_id = 3, cd_ticket_id = Some 3,
            cd_queue_position = Some 3, cd_estimated_wait_time = Some 40\<rparr>) \<and>
   1 + int (length (active_tickets clinic_first_done 7)) = 2"
  by code_simp

subsection \<open>The ceiling on attempts\<close>

lemma checkin_not_exceeded:
  "fst (checkin s0 s1 patient request now today) \<noteq>
     (False, ''Maximum OTP verification attempts exceeded'', None)"
  by (simp add: checkin_def Let_def split: option.splits)

lemma find_valid_otp_unexpired:
  "find_valid_otp s phone code now = Some x \<Longrightarrow> x \<in> set (otp_verifications s) \<and> \<not> is_expired x"
  by (auto simp: find_valid_otp_def find_Some_iff)

text \<open>
  The test of step 2. \<^verbatim>\<open>verify_otp_and_checkin\<close> fails with "Maximum OTP
  verification attempts exceeded" exactly when the record it finds for the submitted
  phone number and code (unverified, unexpired by flag and by time) has a retry
  counter at or above its maximum, as with counter 3 and maximum 3. The call then
  stores the record with its expired flag set, every record with that key is
  expired, and the lookup on the resulting table finds no record with that key.
\<close>

lemma verify_attempt_ceiling:
  "(fst (verify_otp_and_checkin s request now today) =
      (False, ''Maximum OTP verification attempts exceeded'', None) \<longleftrightarrow>
    (\<exists>r. find_valid_otp s (vr_phone_number request) (vr_otp_code request) now = Some r \<and>
         retry_count r \<ge> max_attempts r)) \<and>
   (\<forall>r. find_valid_otp s (vr_phone_number request) (vr_otp_code request) now = Some r \<and>
        retry_count r \<ge> max_attempts r \<longrightarrow>
      r\<lparr>is_expired := True\<rparr> \<in> set (otp_verifications (snd (verify_otp_and_checkin s request now today))) \<and>
      (\<forall>x \<in> set (otp_verifications (snd (verify_otp_and_checkin s request now today))).
          otp_id x = otp_id r \<longrightarrow> is_expired x) \<and>
      (\<forall>phone code now' x.
          find_valid_otp (snd (verify_otp_and_checkin s request now today)) phone code now' = Some x \<longrightarrow>
          otp_id x \<noteq> otp_id r))"
proof -
  let ?v = "verify_otp_and_checkin s request now today"
  let ?f = "find_valid_otp s (vr_phone_number request) (vr_otp_code request) now"
  have a1: "fst ?v = (False, ''Maximum OTP verification attempts exceeded'', None)"
    if "?f = Some r" and "retry_count r \<ge> max_attempts r" for r
    using that by (simp add: verify_otp_and_checkin_def)
  have a2: "\<exists>r. ?f = Some r \<and> retry_count r \<ge> max_attempts r"
    if m: "fst ?v = (False, ''Maximum OTP verification attempts exceeded'', None)"
  proof (cases ?f)
    case None
    with m show ?thesis by (simp add: verify_otp_and_checkin_def)
  next
    case (Some r)
    show ?thesis
    proof (cases "max_attempts r \<le> retry_count r")
      case True
      with Some show ?thesis by simp
    next
      case False
      with Some m checkin_not_exceeded show ?thesis
        by (auto simp: verify_otp_and_checkin_def Let_def split: option.splits)
    qed
  qed
  have b: "r\<lparr>is_expired := True\<rparr> \<in> set (otp_verifications (snd ?v)) \<and>
      (\<forall>x \<in> set (otp_verifications (snd ?v)). otp_id x = otp_id r \<longrightarrow> is_expired x) \<and>
      (\<forall>phone code now' x. find_valid_otp (snd ?v) phone code now' = Some x \<longrightarrow>
          otp_id x \<noteq> otp_id r)"
    if f: "?f = Some r" and c: "retry_count r \<ge> max_attempts r" for r
  proof -
    have tab: "otp_verifications (snd ?v) =
        update_where (\<lambda>x. otp_id x = otp_id r) (\<lambda>x. x\<lparr>is_expired := True\<rparr>) (otp_verifications s)"
      using f c by (simp add: verify_otp_and_checkin_def)
    from f have "r \<in> set (otp_verifications s)"
      by (simp add: find_valid_otp_unexpired)
    then have "r\<lparr>is_expired := True\<rparr> \<in>
        set (update_where (\<lambda>x. otp_id x = otp_id r) (\<lambda>x. x\<lparr>is_expired := True\<rparr>) (otp_verifications s))"
      by (rule update_where_mem) simp
    then have b1: "r\<lparr>is_expired := True\<rparr> \<in> set (otp_verifications (snd ?v))"
      by (simp add: tab)
    have b2: "\<forall>x \<in> set (otp_verifications (snd ?v)). otp_id x = otp_id r \<longrightarrow> is_expired x"
      unfolding tab by (auto simp: update_where_def)
    have b3: "otp_id x \<noteq> otp_id r" if "find_valid_otp (snd ?v) phone code now' = Some x"
      for phone code now' x
      using find_valid_otp_unexpired [OF that] b2 by blast
    from b1 b2 b3 show ?thesis by blast
  qed
  from a1 a2 b show ?thesis by blast
qed

lemma verify_attempt_ceiling_example:
  "find_valid_otp clinic_resent ''+1-555-1012'' ''654321'' 13 =
     Some ((mk_otp 2 ''+1-555-1012'' ''654321'' 2)\<lparr>retry_count := 3\<rparr>) \<and>
   fst (verify_otp_and_checkin clinic_resent (mk_req ''+1-555-1012'' ''654321'') 13 7) =
     (False, ''Maximum OTP verification attempts exceeded'', None) \<and>
   (mk_otp 2 ''+1-555-1012'' ''654321'' 2)\<lparr>retry_count := 3, is_expired := True\<rparr> \<in>
     set (otp_verifications
            (snd (verify_otp_and_checkin clinic_resent (mk_req ''+1-555-1012'' ''654321'') 13 7)))"
proof -
  have f: "find_valid_otp clinic_resent ''+1-555-1012'' ''654321'' 13 =
     Some ((mk_otp 2 ''+1-555-1012'' ''654321'' 2)\<lparr>retry_count := 3\<rparr>)"
    by code_simp
  have k: "vr_phone_number (mk_req ''+1-555-1012'' ''654321'') = ''+1-555-1012''"
    "vr_otp_code (mk_req ''+1-555-1012'' ''654321'') = ''654321''"
    by (simp_all add: mk_req_def)
  have c: "max_attempts ((mk_otp 2 ''+1-555-1012'' ''654321'' 2)\<lparr>retry_count := 3\<rparr>)
      \<le> retry_count ((mk_otp 2 ''+1-555-1012'' ''654321'' 2)\<lparr>retry_count := 3\<rparr>)"
    by (simp add: mk_otp_def)
  note w = verify_attempt_ceiling [of clinic_resent "mk_req ''+1-555-1012'' ''654321''" 13 7]
  from w f c have a: "fst (verify_otp_and_checkin clinic_resent (mk_req ''+1-555-1012'' ''654321'') 13 7) =
     (False, ''Maximum OTP verification attempts exceeded'', None)"
    unfolding k by blast
  from w f c have b: "(mk_otp 2 ''+1-555-1012'' ''654321'' 2)\<lparr>retry_count := 3, is_expired := True\<rparr> \<in>
     set (otp_verifications
            (snd (verify_otp_and_checkin clinic_resent (mk_req ''+1-555-1012'' ''654321'') 13 7)))"
    unfolding k by auto
  from f a b show ?thesis by blast
qed

text \<open>
  Claim C4. After as many failed verifications as the record allows attempts, every
  further verification must fail with "Maximum OTP verification attempts exceeded".
  Step 2 tests the counter against the maximum under that message, but no failed
  verification ever advances the counter. Three calls with a wrong code for the
  second patient, whose record allows 3 attempts, each fail with "Invalid or expired
  OTP" and leave the clinic, counters included, as it was; the fourth call, with the
  right code, checks the patient in. With the counter at the ceiling, a call with a
  wrong code fails with "Invalid or expired OTP" as well.
\<close>

theorem failed_verifications_not_counted:
  "map_option max_attempts (find_existing_otp clinic0 ''+1-555-1012'') = Some 3 \<and>
   map_option retry_count (find_existing_otp clinic0 ''+1-555-1012'') = Some 0 \<and>
   fst (verify_otp_and_checkin clinic0 (mk_req ''+1-555-1012'' ''000000'') 10 7) =
     (False, ''Invalid or expired OTP'', None) \<and>
   run clinic0 [VerifyOtp (mk_req ''+1-555-1012'' ''000000'') 10 7,
                VerifyOtp (mk_req ''+1-555-1012'' ''000000'') 11 7,
                VerifyOtp (mk_req ''+1-555-1012'' ''000000'') 12 7] = clinic0 \<and>
   fst (verify_otp_and_checkin
          (run clinic0 [VerifyOtp (mk_req ''+1-555-1012'' ''000000'') 10 7,
                        VerifyOtp (mk_req ''+1-555-1012'' ''000000'') 11 7,
                        VerifyOtp (mk_req ''+1-555-1012'' ''000000'') 12 7])
          (mk_req ''+1-555-1012'' ''654321'') 13 7) =
     (True, ''Check-in successful'',
      Some \<lparr>cd_patient_id = 2, cd_visit_id = 1, cd_ticket_id = Some 1,
            cd_queue_position = Some 1, cd_estimated_wait_time = Some 0\<rparr>) \<and>
   fst (verify_otp_and_checkin clinic_resent (mk_req ''+1-555-1012'' ''000000'') 13 7) =
     (False, ''Invalid or expired OTP'', None)"
  by code_simp

subsection \<open>One open visit per patient and day\<close>

lemma find_open_visit_None:
  "find_open_visit s pid day = None \<longleftrightarrow> open_visits s pid day = []"
  by (auto simp: find_open_visit_def open_visits_def find_None_iff filter_empty_conv)

lemma open_visits_visits:
  "visits a = visits b \<Longrightarrow> open_visits a pid day = open_visits b pid day"
  by (simp add: open_visits_def)

lemma checkin_open_visits:
  assumes "visits s0 = visits s1" and "length (open_visits s1 pid day) \<le> 1"
  shows "length (open_visits (snd (checkin s0 s1 patient request now today)) pid day) \<le> 1"
proof (cases "find_open_visit s1 (patient_id patient) today")
  case (Some v)
  with assms show ?thesis by (simp add: checkin_def Let_def)
next
  case None
  then have e: "open_visits s1 (patient_id patient) today = []"
    by (simp add: find_open_visit_None)
  show ?thesis
  proof (cases "pid = patient_id patient \<and> day = today")
    case True
    with e None assms(1) show ?thesis
      by (auto simp: checkin_def Let_def open_visits_def split: option.splits)
  next
    case False
    with None assms show ?thesis
      by (auto simp: checkin_def Let_def open_visits_def split: option.splits)
  qed
qed

lemma verify_otp_and_checkin_open_visits:
  assumes "length (open_visits s pid day) \<le> 1"
  shows "length (open_visits (snd (verify_otp_and_checkin s request now today)) pid day) \<le> 1"
proof -
  from verify_cases [of s request now today]
  consider "snd (verify_otp_and_checkin s request now today) = s"
    | "fst (verify_otp_and_checkin s request now today) =
        (False, ''Maximum OTP verification attempts exceeded'', None)"
    | r :: OTPVerification and p where "verify_otp_and_checkin s request now today =
        checkin s (s\<lparr>otp_verifications :=
                     update_where (\<lambda>x. otp_id x = otp_id r)
                       (\<lambda>x. x\<lparr>is_verified := True, verified_at := Some now\<rparr>)
                       (otp_verifications s)\<rparr>) p request now today"
    by force
  then show ?thesis
  proof cases
    case 1
    with assms show ?thesis by simp
  next
    case 2
    then have "visits (snd (verify_otp_and_checkin s request now today)) = visits s"
      using checkin_not_exceeded
      by (auto simp: verify_otp_and_checkin_def Let_def split: option.splits if_splits)
    with assms show ?thesis by (simp add: open_visits_def)
  next
    case 3
    let ?s1 = "s\<lparr>otp_verifications :=
                     update_where (\<lambda>x. otp_id x = otp_id r)
                       (\<lambda>x. x\<lparr>is_verified := True, verified_at := Some now\<rparr>)
                       (otp_verifications s)\<rparr>"
    have "open_visits ?s1 pid day = open_visits s pid day"
      by (rule open_visits_visits) simp
    with assms have "length (open_visits ?s1 pid day) \<le> 1" by simp
    then show ?thesis
      unfolding 3 by (intro checkin_open_visits) simp_all
  qed
qed

lemma checkin_existing_visit:
  assumes "find_open_visit s1 (patient_id patient) today = Some v"
  shows "fst (fst (checkin s0 s1 patient request now today)) \<and>
     fst (snd (fst (checkin s0 s1 patient request now today))) = ''Already checked in for today'' \<and>
     map_option cd_visit_id (snd (snd (fst (checkin s0 s1 patient request now today)))) =
       Some (visit_id v) \<and>
     map_option cd_ticket_id (snd (snd (fst (checkin s0 s1 patient request now today)))) =
       Some (map_option ticket_id (ticket_of_visit s1 (visit_id v))) \<and>
     snd (checkin s0 s1 patient request now today) = s1"
  using assms by (simp add: checkin_def Let_def)

text \<open>
  Claim C1. Admission by code keeps at most one open visit per patient and day (the
  two lemmas above), and finds the open visit instead of creating another.
  \<^verbatim>\<open>qr_checkin\<close> has no such check: two QR check-ins of the first patient on day 7
  both succeed, with visits 1 and 2, tickets 1 and 2 and positions 1 and 2, and leave
  the patient with two ACTIVE visits on that day.
\<close>

theorem qr_checkin_twice_opens_two_visits:
  "fst (qr_checkin clinic0 (mk_qr ''+1-555-1011'') 10 7) =
     Inr \<lparr>qr_success = True, qr_message = ''Check-in successful'', qr_patient_id = 1,
          qr_visit_id = 1, qr_ticket_id = 1, qr_queue_position = 1\<rparr> \<and>
   fst (qr_checkin (run clinic0 [QrCheckin (mk_qr ''+1-555-1011'') 10 7])
          (mk_qr ''+1-555-1011'') 11 7) =
     Inr \<lparr>qr_success = True, qr_message = ''Check-in successful'', qr_patient_id = 1,
          qr_visit_id = 2, qr_ticket_id = 2, qr_queue_position = 2\<rparr> \<and>
   map visit_id
     (open_visits (run clinic0 [QrCheckin (mk_qr ''+1-555-1011'') 10 7,
                                QrCheckin (mk_qr ''+1-555-1011'') 11 7]) 1 7) = [1, 2] \<and>
   map visit_status
     (open_visits (run clinic0 [QrCheckin (mk_qr ''+1-555-1011'') 10 7,
                                QrCheckin (mk_qr ''+1-555-1011'') 11 7]) 1 7) =
     [''ACTIVE'', ''ACTIVE'']"
  by code_simp

subsection \<open>A verified code stays verified\<close>

lemma otp_kept_refl: "otp_kept xs xs"
  by (simp add: otp_kept_def)

lemma otp_kept_trans: "otp_kept xs ys \<Longrightarrow> otp_kept ys zs \<Longrightarrow> otp_kept xs zs"
  unfolding otp_kept_def by (metis le_trans less_le_trans)

lemma otp_kept_append: "otp_kept xs (xs @ [n])"
  by (simp add: otp_kept_def nth_append)

lemma otp_kept_update_where:
  assumes "\<And>x. otp_id (f x) = otp_id x" "\<And>x. otp_phone_number (f x) = otp_phone_number x"
    "\<And>x. otp_code (f x) = otp_code x" "\<And>x. is_verified x \<Longrightarrow> is_verified (f x)"
  shows "otp_kept xs (update_where P f xs)"
  using assms by (simp add: otp_kept_def update_where_def)

lemma checkin_otp_kept:
  assumes "otp_kept xs (otp_verifications s0)" "otp_kept xs (otp_verifications s1)"
  shows "otp_kept xs (otp_verifications (snd (checkin s0 s1 patient request now today)))"
  using checkin_otp_verifications [of s0 s1 patient request now today] assms by auto

lemma verify_otp_kept:
  "otp_kept (otp_verifications s) (otp_verifications (snd (verify_otp_and_checkin s request now today)))"
proof (cases "find_valid_otp s (vr_phone_number request) (vr_otp_code request) now")
  case None
  then show ?thesis by (simp add: verify_otp_and_checkin_def otp_kept_refl)
next
  case (Some r)
  show ?thesis
  proof (cases "max_attempts r \<le> retry_count r")
    case True
    with Some show ?thesis
      by (simp add: verify_otp_and_checkin_def otp_kept_update_where)
  next
    case False
    show ?thesis
    proof (cases "Option.bind (otp_patient_id r) (get_patient s)")
      case None
      with Some False show ?thesis by (simp add: verify_otp_and_checkin_def otp_kept_refl)
    next
      case (Some p)
      let ?s1 = "s\<lparr>otp_verifications :=
                   update_where (\<lambda>x. otp_id x = otp_id r)
                     (\<lambda>x. x\<lparr>is_verified := True, verified_at := Some now\<rparr>)
                     (otp_verifications s)\<rparr>"
      have eq: "verify_otp_and_checkin s request now today = checkin s ?s1 p request now today"
        using \<open>find_valid_otp s (vr_phone_number request) (vr_otp_code request) now = Some r\<close>
          False Some by (simp add: verify_otp_and_checkin_def Let_def)
      have "otp_kept (otp_verifications s) (otp_verifications ?s1)"
        by (simp add: otp_kept_update_where)
      then show ?thesis
        unfolding eq by (intro checkin_otp_kept) (simp_all add: otp_kept_refl)
    qed
  qed
qed

lemma send_otp_kept:
  "otp_kept (otp_verifications s) (otp_verifications (snd (send_otp s phone now code)))"
  by (simp add: send_otp_def Let_def otp_kept_refl otp_kept_append otp_kept_update_where
      split: option.splits)

lemma qr_checkin_otp_verifications:
  "otp_verifications (snd (qr_checkin s request now today)) = otp_verifications s"
proof (cases "qr_patient s request")
  case (Inl e)
  then show ?thesis by (simp add: qr_checkin_def)
next
  case (Inr ps)
  obtain p s1 where ps: "ps = (p, s1)" by (cases ps)
  from Inr ps have "otp_verifications s1 = otp_verifications s"
    by (simp add: qr_patient_tables(3))
  with Inr ps show ?thesis by (simp add: qr_checkin_def Let_def)
qed

lemma exec_otp_kept: "otp_kept (otp_verifications s) (otp_verifications (exec s op))"
proof (cases op)
  case (VerifyOtp request now today)
  then show ?thesis by (simp add: verify_otp_kept)
next
  case (QrCheckin request now today)
  then show ?thesis by (simp add: qr_checkin_otp_verifications otp_kept_refl)
next
  case (Start request now)
  then show ?thesis
    by (simp add: start_appointment_def Let_def otp_kept_refl split: option.splits)
next
  case (UpdateStatus tid status now)
  then show ?thesis
    by (simp add: update_appointment_status_def Let_def otp_kept_refl split: option.splits)
next
  case (Complete tid now)
  then show ?thesis
    by (simp add: complete_appointment_def Let_def otp_kept_refl split: option.splits)
next
  case (SendOtp phone now code)
  then show ?thesis by (simp add: send_otp_kept)
next
  case (SmsCheckin request now today code)
  from sms_checkin_tables(3) [of s request now today code] show ?thesis
    unfolding SmsCheckin by (auto simp: otp_kept_refl otp_kept_append)
qed

lemma run_otp_kept: "otp_kept (otp_verifications s) (otp_verifications (run s ops))"
proof (induction ops arbitrary: s)
  case Nil
  show ?case by (simp add: run_def otp_kept_refl)
next
  case (Cons op ops)
  have "otp_kept (otp_verifications (exec s op)) (otp_verifications (run (exec s op) ops))"
    by (rule Cons.IH)
  with exec_otp_kept [of s op] show ?case
    by (auto simp: run_def intro: otp_kept_trans)
qed

text \<open>
  Claim C5. A record that is verified remains verified through every sequence of
  requests, at its place in the table and with its key, phone number and code; and
  the lookup of \<^verbatim>\<open>verify_otp_and_checkin\<close> never returns that record, for any
  phone number, code and time. Verification is a one-way transition.
\<close>

theorem verified_otp_stays_verified:
  "k < length (otp_verifications s) \<and> is_verified (otp_verifications s ! k) \<longrightarrow>
     k < length (otp_verifications (run s ops)) \<and>
     is_verified (otp_verifications (run s ops) ! k) \<and>
     otp_id (otp_verifications (run s ops) ! k) = otp_id (otp_verifications s ! k) \<and>
     otp_phone_number (otp_verifications (run s ops) ! k) = otp_phone_number (otp_verifications s ! k) \<and>
     otp_code (otp_verifications (run s ops) ! k) = otp_code (otp_verifications s ! k) \<and>
     (\<forall>phone code now.
        find_valid_otp (run s ops) phone code now \<noteq> Some (otp_verifications (run s ops) ! k))"
proof
  assume h: "k < length (otp_verifications s) \<and> is_verified (otp_verifications s ! k)"
  from run_otp_kept [of s ops] h
  have a: "k < length (otp_verifications (run s ops))"
    and b: "is_verified (otp_verifications (run s ops) ! k)"
    and c: "otp_id (otp_verifications (run s ops) ! k) = otp_id (otp_verifications s ! k)"
      "otp_phone_number (otp_verifications (run s ops) ! k) = otp_phone_number (otp_verifications s ! k)"
      "otp_code (otp_verifications (run s ops) ! k) = otp_code (otp_verifications s ! k)"
    by (auto simp: otp_kept_def)
  have d: "find_valid_otp (run s ops) phone code now \<noteq> Some (otp_verifications (run s ops) ! k)"
    for phone code now
    using b by (auto simp: find_valid_otp_def find_Some_iff)
  from a b c d show "k < length (otp_verifications (run s ops)) \<and>
     is_verified (otp_verifications (run s ops) ! k) \<and>
     otp_id (otp_verifications (run s ops) ! k) = otp_id (otp_verifications s ! k) \<and>
     otp_phone_number (otp_verifications (run s ops) ! k) = otp_phone_number (otp_verifications s ! k) \<and>
     otp_code (otp_verifications (run s ops) ! k) = otp_code (otp_verifications s ! k) \<and>
     (\<forall>phone code now.
        find_valid_otp (run s ops) phone code now \<noteq> Some (otp_verifications (run s ops) ! k))"
    by blast
qed

theorem verified_otp_stays_verified_witness:
  "map is_verified (otp_verifications clinic_waiting) = [True, False, False, False] \<and>
   is_verified (otp_verifications
     (run clinic_waiting [SendOtp ''+1-555-1011'' 20 ''4711'',
                          VerifyOtp (mk_req ''+1-555-1011'' ''123456'') 21 7]) ! 0) \<and>
   find_valid_otp
     (run clinic_waiting [SendOtp ''+1-555-1011'' 20 ''4711'',
                          VerifyOtp (mk_req ''+1-555-1011'' ''123456'') 21 7])
     ''+1-555-1011'' ''123456'' 22 \<noteq>
   Some (otp_verifications
     (run clinic_waiting [SendOtp ''+1-555-1011'' 20 ''4711'',
                          VerifyOtp (mk_req ''+1-555-1011'' ''123456'') 21 7]) ! 0) \<and>
   fst (verify_otp_and_checkin clinic_waiting (mk_req ''+1-555-1011'' ''123456'') 21 7) =
     (False, ''Invalid or expired OTP'', None)"
proof -
  have v: "map is_verified (otp_verifications clinic_waiting) = [True, False, False, False]"
    by code_simp
  then have h: "0 < length (otp_verifications clinic_waiting) \<and>
      is_verified (otp_verifications clinic_waiting ! 0)"
    by (cases "otp_verifications clinic_waiting") auto
  have r: "fst (verify_otp_and_checkin clinic_waiting (mk_req ''+1-555-1011'' ''123456'') 21 7) =
     (False, ''Invalid or expired OTP'', None)"
    by code_simp
  from verified_otp_stays_verified [of 0 clinic_waiting
      "[SendOtp ''+1-555-1011'' 20 ''4711'', VerifyOtp (mk_req ''+1-555-1011'' ''123456'') 21 7]"] h v r
  show ?thesis by blast
qed

subsection \<open>Positions of the active tickets\<close>

lemma active_tickets_alt:
  "active_tickets s d = filter (\<lambda>t. queue_date t = d \<and> active_ticket t) (queue_tickets s)"
  by (simp add: active_tickets_def active_ticket_def)

lemma fold_max_ge: "(x::int) \<in> set xs \<Longrightarrow> x \<le> fold max xs a"
proof -
  assume "x \<in> set xs"
  then have "x \<le> Max (set (a # xs))"
    by (intro Max_ge) simp_all
  then show ?thesis
    by (simp only: Max.set_eq_fold)
qed

lemma next_id_fresh: "x \<in> set ids \<Longrightarrow> x < next_id ids"
  using fold_max_ge [of x ids 0] by (simp add: next_id_def)

lemma max_position_ge:
  "t \<in> set (active_tickets s d) \<Longrightarrow> queue_position t \<le> max_position s d"
proof -
  assume t: "t \<in> set (active_tickets s d)"
  then have ne: "active_tickets s d \<noteq> []" by auto
  from t have "queue_position t \<in> set (map queue_position (active_tickets s d))" by simp
  then have "queue_position t \<le> Max (set (map queue_position (active_tickets s d)))"
    by (intro Max_ge) simp_all
  with ne show ?thesis by (simp add: max_position_Max)
qed

lemma max_position_le:
  assumes "\<forall>t \<in> set (active_tickets s d). queue_position t \<le> n" and "0 \<le> n"
  shows "max_position s d \<le> n"
proof (cases "active_tickets s d = []")
  case True
  with assms show ?thesis by (simp add: max_position_Max)
next
  case False
  then have "Max (set (map queue_position (active_tickets s d))) \<le> n"
    using assms by (subst Max_le_iff) auto
  with False show ?thesis by (simp add: max_position_Max)
qed

lemma queue_inv_append:
  assumes inv: "queue_inv ts"
    and fresh: "ticket_id t \<notin> set (map ticket_id ts)"
    and lo: "1 \<le> queue_position t"
    and hi: "queue_position t \<le> int (length (filter (\<lambda>u. queue_date u = queue_date t) ts)) + 1"
    and new: "\<forall>u \<in> set ts. queue_date u = queue_date t \<and> active_ticket u \<longrightarrow>
                queue_position u \<noteq> queue_position t"
  shows "queue_inv (ts @ [t])"
proof -
  have a: "distinct (map ticket_id (ts @ [t]))"
    using inv fresh by (simp add: queue_inv_def)
  have b: "distinct (map queue_position (filter (\<lambda>u. queue_date u = d \<and> active_ticket u) (ts @ [t])))"
    for d
    using inv new by (auto simp: queue_inv_def)
  have c: "1 \<le> queue_position u \<and>
      queue_position u \<le> int (length (filter (\<lambda>v. queue_date v = queue_date u) (ts @ [t])))"
    if "u \<in> set (ts @ [t])" for u
  proof (cases "u \<in> set ts")
    case True
    with inv have "1 \<le> queue_position u \<and>
        queue_position u \<le> int (length (filter (\<lambda>v. queue_date v = queue_date u) ts))"
      by (simp add: queue_inv_def)
    then show ?thesis by auto
  next
    case False
    with that have "u = t" by simp
    with lo hi show ?thesis by simp
  qed
  from a b c show ?thesis unfolding queue_inv_def by blast
qed

lemma queue_inv_update_where:
  assumes inv: "queue_inv ts"
    and keep: "\<And>x. ticket_id (f x) = ticket_id x" "\<And>x. queue_date (f x) = queue_date x"
      "\<And>x. queue_position (f x) = queue_position x"
    and act: "\<forall>x \<in> set ts. P x \<and> active_ticket (f x) \<longrightarrow> active_ticket x"
  shows "queue_inv (update_where P f ts)"
proof -
  let ?g = "\<lambda>x. if P x then f x else x"
  have g: "ticket_id (?g x) = ticket_id x" "queue_date (?g x) = queue_date x"
    "queue_position (?g x) = queue_position x" for x
    using keep by simp_all
  have mi: "map ticket_id (map ?g ys) = map ticket_id ys" for ys
    by (induction ys) (simp_all add: keep)
  have mp: "map queue_position (map ?g ys) = map queue_position ys" for ys
    by (induction ys) (simp_all add: keep)
  have a: "distinct (map ticket_id (map ?g ts))"
    using inv unfolding mi by (simp add: queue_inv_def)
  have b: "distinct (map queue_position (filter (\<lambda>u. queue_date u = d \<and> active_ticket u) (map ?g ts)))"
    for d
  proof -
    have sub: "filter (\<lambda>x. queue_date (?g x) = d \<and> active_ticket (?g x)) ts =
        filter (\<lambda>x. active_ticket (?g x)) (filter (\<lambda>x. queue_date x = d \<and> active_ticket x) ts)"
      using act by (induction ts) (auto simp: keep)
    have "map queue_position (filter (\<lambda>u. queue_date u = d \<and> active_ticket u) (map ?g ts)) =
        map queue_position (map ?g (filter (\<lambda>x. queue_date (?g x) = d \<and> active_ticket (?g x)) ts))"
      by (simp add: filter_map o_def)
    also have "\<dots> = map queue_position (filter (\<lambda>x. queue_date (?g x) = d \<and> active_ticket (?g x)) ts)"
      by (rule mp)
    also have "\<dots> = map queue_position
        (filter (\<lambda>x. active_ticket (?g x)) (filter (\<lambda>x. queue_date x = d \<and> active_ticket x) ts))"
      by (simp only: sub)
    finally have eq: "map queue_position (filter (\<lambda>u. queue_date u = d \<and> active_ticket u) (map ?g ts)) =
        map queue_position
          (filter (\<lambda>x. active_ticket (?g x)) (filter (\<lambda>x. queue_date x = d \<and> active_ticket x) ts))" .
    from inv have "distinct (map queue_position (filter (\<lambda>x. queue_date x = d \<and> active_ticket x) ts))"
      unfolding queue_inv_def by blast
    then have "distinct (map queue_position
          (filter (\<lambda>x. active_ticket (?g x)) (filter (\<lambda>x. queue_date x = d \<and> active_ticket x) ts)))"
      by (rule distinct_map_filter)
    then show ?thesis by (simp only: eq)
  qed
  have len: "length (filter (\<lambda>v. queue_date v = d) (map ?g ts)) =
      length (filter (\<lambda>v. queue_date v = d) ts)" for d
    by (induction ts) (simp_all add: keep)
  have c: "1 \<le> queue_position u \<and>
      queue_position u \<le> int (length (filter (\<lambda>v. queue_date v = queue_date u) (map ?g ts)))"
    if "u \<in> set (map ?g ts)" for u
  proof -
    from that obtain x where x: "x \<in> set ts" "u = ?g x" by auto
    with inv have "1 \<le> queue_position x \<and>
        queue_position x \<le> int (length (filter (\<lambda>v. queue_date v = queue_date x) ts))"
      by (simp add: queue_inv_def)
    with x show ?thesis
      unfolding len by (simp add: keep)
  qed
  from a b c show ?thesis unfolding queue_inv_def update_where_def by blast
qed

lemma distinct_key_eq:
  "distinct (map key xs) \<Longrightarrow> x \<in> set xs \<Longrightarrow> y \<in> set xs \<Longrightarrow> key x = key y \<Longrightarrow> x = y"
  by (auto simp: distinct_map dest: inj_onD)

lemma queue_date_stamp_status [simp]: "queue_date (stamp_status status now t) = queue_date t"
  by (simp add: stamp_status_def)

lemma queue_position_stamp_status [simp]:
  "queue_position (stamp_status status now t) = queue_position t"
  by (simp add: stamp_status_def)

lemma max_position_nonneg:
  assumes "queue_inv (queue_tickets s)"
  shows "0 \<le> max_position s d"
proof (cases "active_tickets s d")
  case Nil
  then show ?thesis by (simp add: max_position_Max)
next
  case (Cons t ts)
  then have t: "t \<in> set (active_tickets s d)" by simp
  then have "t \<in> set (queue_tickets s)" by (simp add: active_tickets_def)
  with assms have "1 \<le> queue_position t" by (simp add: queue_inv_def)
  with max_position_ge [OF t] show ?thesis by simp
qed

lemma max_position_count:
  assumes "queue_inv (queue_tickets s)"
  shows "max_position s d \<le> int (length (filter (\<lambda>u. queue_date u = d) (queue_tickets s)))"
proof (rule max_position_le)
  show "\<forall>t\<in>set (active_tickets s d).
      queue_position t \<le> int (length (filter (\<lambda>u. queue_date u = d) (queue_tickets s)))"
    using assms by (auto simp: queue_inv_def active_tickets_def)
qed simp

lemma queue_inv_otp_ticket:
  assumes inv: "queue_inv (queue_tickets s)"
    and t: "ticket_id t = next_id (map ticket_id (queue_tickets s))" "queue_date t = today"
      "queue_position t = max_position s today + 1"
  shows "queue_inv (queue_tickets s @ [t])"
proof (rule queue_inv_append [OF inv])
  show "ticket_id t \<notin> set (map ticket_id (queue_tickets s))"
    using next_id_fresh [of "ticket_id t" "map ticket_id (queue_tickets s)"] t(1) by auto
  show "1 \<le> queue_position t"
    using max_position_nonneg [OF inv, of today] t(3) by simp
  show "queue_position t \<le> int (length (filter (\<lambda>u. queue_date u = queue_date t) (queue_tickets s))) + 1"
    using max_position_count [OF inv, of today] t(2,3) by simp
  show "\<forall>u\<in>set (queue_tickets s). queue_date u = queue_date t \<and> active_ticket u \<longrightarrow>
      queue_position u \<noteq> queue_position t"
  proof (intro ballI impI)
    fix u
    assume "u \<in> set (queue_tickets s)" and "queue_date u = queue_date t \<and> active_ticket u"
    then have "u \<in> set (active_tickets s today)"
      by (simp add: active_tickets_alt t(2))
    from max_position_ge [OF this] t(3) show "queue_position u \<noteq> queue_position t" by simp
  qed
qed

lemma queue_inv_qr_ticket:
  assumes inv: "queue_inv ts"
    and t: "ticket_id t = next_id (map ticket_id ts)" "queue_date t = today"
      "queue_position t = int (length (filter (\<lambda>u. queue_date u = today) ts)) + 1"
  shows "queue_inv (ts @ [t])"
proof (rule queue_inv_append [OF inv])
  show "ticket_id t \<notin> set (map ticket_id ts)"
    using next_id_fresh [of "ticket_id t" "map ticket_id ts"] t(1) by auto
  show "1 \<le> queue_position t"
    using t(3) by simp
  show "queue_position t \<le> int (length (filter (\<lambda>u. queue_date u = queue_date t) ts)) + 1"
    using t(2,3) by simp
  show "\<forall>u\<in>set ts. queue_date u = queue_date t \<and> active_ticket u \<longrightarrow>
      queue_position u \<noteq> queue_position t"
    using inv t(2,3) by (fastforce simp: queue_inv_def)
qed

lemma checkin_queue_tickets:
  "queue_tickets (snd (checkin s0 s1 patient request now today)) = queue_tickets s1 \<or>
   snd (checkin s0 s1 patient request now today) = s0 \<or>
   (\<exists>t. queue_tickets (snd (checkin s0 s1 patient request now today)) = queue_tickets s1 @ [t] \<and>
        ticket_id t = next_id (map ticket_id (queue_tickets s1)) \<and> queue_date t = today \<and>
        queue_position t = max_position s1 today + 1)"
proof -
  let ?s2 = "s1\<lparr>visits := visits s1 @
      [\<lparr>visit_id = next_id (map visit_id (visits s1)), visit_patient_id = patient_id patient,
        visit_department_id = vr_department_id request, visit_doctor_id = vr_doctor_id request,
        visit_date = today, check_in_datetime = Some now,
        check_in_method = vr_check_in_method request, visit_status = ''ACTIVE'',
        completed_datetime = None\<rparr>]\<rparr>"
  have m: "max_position ?s2 today = max_position s1 today"
    by (rule max_position_tickets) simp
  show ?thesis
    unfolding checkin_def Let_def m by (simp split: option.splits)
qed

lemma verify_queue_tickets:
  "queue_tickets (snd (verify_otp_and_checkin s request now today)) = queue_tickets s \<or>
   (\<exists>t. queue_tickets (snd (verify_otp_and_checkin s request now today)) = queue_tickets s @ [t] \<and>
        ticket_id t = next_id (map ticket_id (queue_tickets s)) \<and> queue_date t = today \<and>
        queue_position t = max_position s today + 1)"
proof -
  from verify_cases [of s request now today]
  consider "snd (verify_otp_and_checkin s request now today) = s"
    | "fst (verify_otp_and_checkin s request now today) =
        (False, ''Maximum OTP verification attempts exceeded'', None)"
    | r :: OTPVerification and p where "verify_otp_and_checkin s request now today =
        checkin s (s\<lparr>otp_verifications :=
                     update_where (\<lambda>x. otp_id x = otp_id r)
                       (\<lambda>x. x\<lparr>is_verified := True, verified_at := Some now\<rparr>)
                       (otp_verifications s)\<rparr>) p request now today"
    by force
  then show ?thesis
  proof cases
    case 1
    then show ?thesis by simp
  next
    case 2
    then have "queue_tickets (snd (verify_otp_and_checkin s request now today)) = queue_tickets s"
      using checkin_not_exceeded
      by (auto simp: verify_otp_and_checkin_def Let_def split: option.splits if_splits)
    then show ?thesis by simp
  next
    case 3
    let ?s1 = "s\<lparr>otp_verifications :=
                     update_where (\<lambda>x. otp_id x = otp_id r)
                       (\<lambda>x. x\<lparr>is_verified := True, verified_at := Some now\<rparr>)
                       (otp_verifications s)\<rparr>"
    have m: "max_position ?s1 today = max_position s today"
      by (rule max_position_tickets) simp
    from checkin_queue_tickets [of s ?s1 p request now today] show ?thesis
      unfolding 3 m by auto
  qed
qed

lemma qr_checkin_failed:
  "fst (qr_checkin s request now today) = Inl e \<Longrightarrow> snd (qr_checkin s request now today) = s"
  by (auto simp: qr_checkin_def Let_def split: sum.splits prod.splits)

lemma exec_queue_inv:
  assumes inv: "queue_inv (queue_tickets s)" and ok: "\<not> reactivates s op"
  shows "queue_inv (queue_tickets (exec s op))"
proof (cases op)
  case (VerifyOtp request now today)
  from verify_queue_tickets [of s request now today] inv show ?thesis
    unfolding VerifyOtp by (auto intro: queue_inv_otp_ticket)
next
  case (QrCheckin request now today)
  show ?thesis
  proof (cases "fst (qr_checkin s request now today)")
    case (Inl e)
    with inv show ?thesis
      unfolding QrCheckin by (simp add: qr_checkin_failed)
  next
    case (Inr resp)
    from qr_checkin_new [OF Inr] inv show ?thesis
      unfolding QrCheckin by (auto intro: queue_inv_qr_ticket)
  qed
next
  case (Start request now)
  show ?thesis
  proof (cases "fst (fst (start_appointment s request now))")
    case False
    then have "snd (start_appointment s request now) = s"
      by (auto simp: start_appointment_def Let_def split: option.splits if_splits)
    with inv show ?thesis unfolding Start by simp
  next
    case True
    then obtain t where t: "get_ticket s (start_ticket_id request) = Some t"
      and st: "queue_status t \<in> {''WAITING'', ''CALLED''}"
      and tab: "queue_tickets (snd (start_appointment s request now)) =
        update_where (\<lambda>x. ticket_id x = ticket_id t)
          (\<lambda>x. x\<lparr>queue_status := ''IN_PROGRESS'', started_at := Some now\<rparr>) (queue_tickets s)"
      by (auto simp: start_appointment_def Let_def split: option.splits if_splits)
    from t have mem: "t \<in> set (queue_tickets s)"
      by (auto simp: get_ticket_def find_Some_iff)
    from inv have d: "distinct (map ticket_id (queue_tickets s))"
      by (simp add: queue_inv_def)
    from st have act: "active_ticket t"
      by (auto simp: active_ticket_def)
    have "queue_inv (update_where (\<lambda>x. ticket_id x = ticket_id t)
          (\<lambda>x. x\<lparr>queue_status := ''IN_PROGRESS'', started_at := Some now\<rparr>) (queue_tickets s))"
    proof (rule queue_inv_update_where [OF inv])
      show "\<forall>x\<in>set (queue_tickets s). ticket_id x = ticket_id t \<and>
          active_ticket (x\<lparr>queue_status := ''IN_PROGRESS'', started_at := Some now\<rparr>) \<longrightarrow>
          active_ticket x"
        using distinct_key_eq [OF d _ mem] act by blast
    qed simp_all
    then show ?thesis unfolding Start by (simp add: tab)
  qed
next
  case (UpdateStatus tid status now)
  show ?thesis
  proof (cases "status \<in> set valid_statuses")
    case False
    with inv show ?thesis
      unfolding UpdateStatus by (simp add: update_appointment_status_def)
  next
    case True
    show ?thesis
    proof (cases "get_ticket s tid")
      case None
      with inv True show ?thesis
        unfolding UpdateStatus by (simp add: update_appointment_status_def)
    next
      case (Some t)
      from Some have mem: "t \<in> set (queue_tickets s)"
        by (auto simp: get_ticket_def find_Some_iff)
      from inv have d: "distinct (map ticket_id (queue_tickets s))"
        by (simp add: queue_inv_def)
      from ok Some have nr: "active_ticket t \<or> status \<notin> set [''WAITING'', ''CALLED'', ''IN_PROGRESS'']"
        unfolding UpdateStatus by auto
      have "queue_inv (update_where (\<lambda>x. ticket_id x = ticket_id t)
            (\<lambda>x. stamp_status status now (x\<lparr>queue_status := status\<rparr>)) (queue_tickets s))"
      proof (rule queue_inv_update_where [OF inv])
        show "\<forall>x\<in>set (queue_tickets s). ticket_id x = ticket_id t \<and>
            active_ticket (stamp_status status now (x\<lparr>queue_status := status\<rparr>)) \<longrightarrow>
            active_ticket x"
        proof (intro ballI impI)
          fix x
          assume x: "x \<in> set (queue_tickets s)"
            and h: "ticket_id x = ticket_id t \<and>
              active_ticket (stamp_status status now (x\<lparr>queue_status := status\<rparr>))"
          from distinct_key_eq [OF d x mem] h have "x = t" by blast
          moreover from h have "status \<in> set [''WAITING'', ''CALLED'', ''IN_PROGRESS'']"
            by (simp add: active_ticket_def)
          ultimately show "active_ticket x" using nr by blast
        qed
      qed simp_all
      with True Some show ?thesis
        unfolding UpdateStatus by (simp add: update_appointment_status_def Let_def)
    qed
  qed
next
  case (Complete tid now)
  have "queue_tickets (snd (complete_appointment s tid now)) = queue_tickets s \<or>
      (\<exists>k. queue_tickets (snd (complete_appointment s tid now)) =
        update_where (\<lambda>x. ticket_id x = k)
          (\<lambda>x. x\<lparr>queue_status := ''COMPLETED'', completed_at := Some now\<rparr>) (queue_tickets s))"
    by (auto simp: complete_appointment_def Let_def split: option.splits)
  moreover have "queue_inv (update_where (\<lambda>x. ticket_id x = k)
          (\<lambda>x. x\<lparr>queue_status := ''COMPLETED'', completed_at := Some now\<rparr>) (queue_tickets s))" for k
    by (rule queue_inv_update_where [OF inv]) (simp_all add: active_ticket_def)
  ultimately show ?thesis
    unfolding Complete using inv by auto
next
  case (SendOtp phone now code)
  with inv show ?thesis
    by (simp add: send_otp_def Let_def split: option.splits)
next
  case (SmsCheckin request now today code)
  with inv show ?thesis
    by (simp add: sms_checkin_tables(1))
qed

lemma run_queue_inv:
  "queue_inv (queue_tickets s) \<Longrightarrow> no_reactivation s ops \<Longrightarrow> queue_inv (queue_tickets (run s ops))"
proof (induction ops arbitrary: s)
  case Nil
  then show ?case by (simp add: run_def)
next
  case (Cons op ops)
  from Cons.prems have "queue_inv (queue_tickets (exec s op))"
    by (intro exec_queue_inv) simp_all
  moreover from Cons.prems have "no_reactivation (exec s op) ops" by simp
  ultimately have "queue_inv (queue_tickets (run (exec s op) ops))"
    by (rule Cons.IH)
  then show ?case by (simp add: run_def)
qed

text \<open>
  Claim C3, as amended. Start from a database without tickets and execute any sequence
  of check-ins by code, by QR code and by SMS, starts, completions, resends and status
  updates, none of which moves a ticket that is not active (WAITING, CALLED,
  IN_PROGRESS) back into an active status. In the state reached, the active tickets
  of every day have pairwise different positions, and no position is negative.
\<close>

theorem active_positions_unique:
  "queue_tickets s = [] \<and> no_reactivation s ops \<longrightarrow>
     (\<forall>d. distinct (map queue_position (active_tickets (run s ops) d))) \<and>
     (\<forall>t \<in> set (queue_tickets (run s ops)). 0 \<le> queue_position t)"
proof
  assume h: "queue_tickets s = [] \<and> no_reactivation s ops"
  then have "queue_inv (queue_tickets s)"
    by (simp add: queue_inv_def)
  with h have inv: "queue_inv (queue_tickets (run s ops))"
    by (intro run_queue_inv) simp_all
  have a: "distinct (map queue_position (active_tickets (run s ops) d))" for d
    using inv unfolding queue_inv_def active_tickets_alt by blast
  have b: "0 \<le> queue_position t" if "t \<in> set (queue_tickets (run s ops))" for t
    using inv that unfolding queue_inv_def by fastforce
  from a b show "(\<forall>d. distinct (map queue_position (active_tickets (run s ops) d))) \<and>
     (\<forall>t \<in> set (queue_tickets (run s ops)). 0 \<le> queue_position t)"
    by blast
qed

theorem active_positions_unique_witness:
  "queue_tickets clinic0 = [] \<and>
   no_reactivation clinic0
     [VerifyOtp (mk_req ''+1-555-1011'' ''123456'') 10 7, QrCheckin (mk_qr ''+1-555-1012'') 11 7,
      Start (start_ticket 1) 12, Complete 1 13,
      VerifyOtp (mk_req ''+1-555-1013'' ''111111'') 14 7, UpdateStatus 2 ''CALLED'' 15] \<and>
   map queue_position (queue_tickets (run clinic0
     [VerifyOtp (mk_req ''+1-555-1011'' ''123456'') 10 7, QrCheckin (mk_qr ''+1-555-1012'') 11 7,
      Start (start_ticket 1) 12, Complete 1 13,
      VerifyOtp (mk_req ''+1-555-1013'' ''111111'') 14 7, UpdateStatus 2 ''CALLED'' 15])) = [1, 2, 3] \<and>
   distinct (map queue_position (active_tickets (run clinic0
     [VerifyOtp (mk_req ''+1-555-1011'' ''123456'') 10 7, QrCheckin (mk_qr ''+1-555-1012'') 11 7,
      Start (start_ticket 1) 12, Complete 1 13,
      VerifyOtp (mk_req ''+1-555-1013'' ''111111'') 14 7, UpdateStatus 2 ''CALLED'' 15]) 7))"
proof -
  let ?ops = "[VerifyOtp (mk_req ''+1-555-1011'' ''123456'') 10 7, QrCheckin (mk_qr ''+1-555-1012'') 11 7,
      Start (start_ticket 1) 12, Complete 1 13,
      VerifyOtp (mk_req ''+1-555-1013'' ''111111'') 14 7, UpdateStatus 2 ''CALLED'' 15]"
  have e: "queue_tickets clinic0 = []"
    by (simp add: clinic0_def)
  have n: "no_reactivation clinic0 ?ops"
    by code_simp
  have p: "map queue_position (queue_tickets (run clinic0 ?ops)) = [1, 2, 3]"
    by code_simp
  from active_positions_unique [of clinic0 ?ops] e n
  have "distinct (map queue_position (active_tickets (run clinic0 ?ops) 7))"
    by blast
  with e n p show ?thesis by blast
qed

text \<open>
  With a status update that reactivates a completed ticket the positions collide: the
  first patient checks in (ticket 1, position 1), the appointment is completed, the
  second patient checks in (ticket 2, position 1 again, since no ticket is active),
  and ticket 1 is set back to WAITING. Both tickets of day 7 are then WAITING at
  position 1.
\<close>

theorem active_positions_collide_counterexample:
  "queue_tickets clinic0 = [] \<and>
   map ticket_id (queue_tickets (run clinic0
     [VerifyOtp (mk_req ''+1-555-1011'' ''123456'') 10 7, Complete 1 11,
      VerifyOtp (mk_req ''+1-555-1012'' ''654321'') 12 7, UpdateStatus 1 ''WAITING'' 13])) = [1, 2] \<and>
   map queue_date (queue_tickets (run clinic0
     [VerifyOtp (mk_req ''+1-555-1011'' ''123456'') 10 7, Complete 1 11,
      VerifyOtp (mk_req ''+1-555-1012'' ''654321'') 12 7, UpdateStatus 1 ''WAITING'' 13])) = [7, 7] \<and>
   map queue_status (queue_tickets (run clinic0
     [VerifyOtp (mk_req ''+1-555-1011'' ''123456'') 10 7, Complete 1 11,
      VerifyOtp (mk_req ''+1-555-1012'' ''654321'') 12 7, UpdateStatus 1 ''WAITING'' 13])) =
     [''WAITING'', ''WAITING''] \<and>
   map queue_position (queue_tickets (run clinic0
     [VerifyOtp (mk_req ''+1-555-1011'' ''123456'') 10 7, Complete 1 11,
      VerifyOtp (mk_req ''+1-555-1012'' ''654321'') 12 7, UpdateStatus 1 ''WAITING'' 13])) = [1, 1] \<and>
   \<not> distinct (map queue_position (active_tickets (run clinic0
     [VerifyOtp (mk_req ''+1-555-1011'' ''123456'') 10 7, Complete 1 11,
      VerifyOtp (mk_req ''+1-555-1012'' ''654321'') 12 7, UpdateStatus 1 ''WAITING'' 13]) 7))"
  by code_simp

subsection \<open>From the SMS to the queue\<close>

lemma sms_checkin_then_verify:
  "py_upper (py_strip '' join '') = ''JOIN'' \<and>
   otp_verifications
     (run clinic_scheduled
        [SmsCheckin \<lparr>sms_phone_number = ''+1-555-1011'', sms_message_body = '' join ''\<rparr> 400 7
           ''123456'']) =
     [(mk_otp 1 ''+1-555-1011'' ''123456'' 1)\<lparr>expires_at := 1000\<rparr>] \<and>
   fst (verify_otp_and_checkin
     (run clinic_scheduled
        [SmsCheckin \<lparr>sms_phone_number = ''+1-555-1011'', sms_message_body = '' join ''\<rparr> 400 7
           ''123456''])
     (mk_req ''+1-555-1011'' ''123456'') 450 7) =
     (True, ''Check-in successful'',
      Some \<lparr>cd_patient_id = 1, cd_visit_id = 2, cd_ticket_id = Some 1,
            cd_queue_position = Some 1, cd_estimated_wait_time = Some 0\<rparr>)"
  by code_simp

end
